theory Spec2Isabelle
  imports Complex_Main
begin

section \<open>DGA Withdrawal Planner: the simulation core\<close>

text \<open>
  The model covers \<^verbatim>\<open>simulate_withdrawal\<close> and the bisection block guarded by
  \<^verbatim>\<open>if auto_calc_withdrawal:\<close> of \<^verbatim>\<open>DGA-Withdrawal-Planner.py\<close>.
  Python's floats are modelled as exact reals: rounding, overflow and the special values
  of IEEE arithmetic are outside the model. Python raises \<^verbatim>\<open>ZeroDivisionError\<close> on a
  float division by zero; that is the one exception the modelled code can raise.
\<close>

subsection \<open>Data\<close>

datatype error = ZeroDivisionError

text \<open>
  The arguments of \<^verbatim>\<open>simulate_withdrawal\<close>, in the order of its signature, together
  with the module-level \<^verbatim>\<open>current_year\<close> it reads. \<^verbatim>\<open>years\<close> is a Python int.
\<close>

record params =
  start_capital :: real
  annual_return :: real
  inflation :: real
  net_withdrawal :: real
  tax_threshold1 :: real
  tax_rate1 :: real
  tax_rate2 :: real
  dividend_tax :: real
  years :: int
  current_year :: int

text \<open>One row of \<^verbatim>\<open>data\<close>: the dict appended per year, keys in the source's order.\<close>

record year_record =
  Year :: int
  Profit :: real
  Profit_Tax :: real
  Dividend_Tax :: real
  Gross_Withdrawal :: real
  Net_Withdrawal :: real
  End_Capital :: real

text \<open>The local variables of \<^verbatim>\<open>simulate_withdrawal\<close> that the loop updates.\<close>

record loop_state =
  capital :: real
  capital_depleted :: bool
  data :: "year_record list"

subsection \<open>The simulation\<close>

text \<open>Python's \<^verbatim>\<open>/\<close> on floats: raises on a zero divisor.\<close>

definition truediv :: "real \<Rightarrow> real \<Rightarrow> error + real" where
  "truediv a b = (if b = 0 then Inl ZeroDivisionError else Inr (a / b))"

text \<open>
  The body of \<^verbatim>\<open>for year in range(1, years + 1)\<close> up to and including
  \<^verbatim>\<open>data.append\<close>. \<^verbatim>\<open>year\<close> is at least 1 there, so \<^verbatim>\<open>year - 1\<close> is a
  natural number.
\<close>

definition year_body :: "params \<Rightarrow> nat \<Rightarrow> loop_state \<Rightarrow> error + loop_state" where
  "year_body p year s =
    (let cal_year = current_year p + int year;
         profit = capital s * annual_return p;
         profit_tax =
           (if profit \<le> tax_threshold1 p then profit * tax_rate1 p
            else tax_threshold1 p * tax_rate1 p + (profit - tax_threshold1 p) * tax_rate2 p);
         adjusted_net_withdrawal = net_withdrawal p * ((1 + inflation p) ^ (year - 1))
     in case truediv adjusted_net_withdrawal (1 - dividend_tax p) of
          Inl e \<Rightarrow> Inl e
        | Inr gross_withdrawal \<Rightarrow>
            (let dividend_paid = gross_withdrawal * dividend_tax p;
                 projected_capital = capital s + profit - profit_tax - gross_withdrawal
             in if projected_capital < 0 then
                  (let gross_withdrawal2 = gross_withdrawal + projected_capital;
                       adjusted_net_withdrawal2 = gross_withdrawal2 * (1 - dividend_tax p);
                       dividend_paid2 = gross_withdrawal2 * dividend_tax p
                   in Inr \<lparr>capital = 0, capital_depleted = True,
                           data = data s @
                             [\<lparr>Year = cal_year, Profit = profit, Profit_Tax = profit_tax,
                               Dividend_Tax = dividend_paid2,
                               Gross_Withdrawal = gross_withdrawal2,
                               Net_Withdrawal = adjusted_net_withdrawal2,
                               End_Capital = 0\<rparr>]\<rparr>)
                else
                  Inr \<lparr>capital = projected_capital,
                       capital_depleted = capital_depleted s,
                       data = data s @
                         [\<lparr>Year = cal_year, Profit = profit, Profit_Tax = profit_tax,
                           Dividend_Tax = dividend_paid,
                           Gross_Withdrawal = gross_withdrawal,
                           Net_Withdrawal = adjusted_net_withdrawal,
                           End_Capital = projected_capital\<rparr>]\<rparr>))"

text \<open>The loop over the remaining years, with its \<^verbatim>\<open>break\<close> once the capital is depleted.\<close>

fun year_loop :: "params \<Rightarrow> nat list \<Rightarrow> loop_state \<Rightarrow> error + loop_state" where
  "year_loop p [] s = Inr s"
| "year_loop p (year # rest) s =
     (case year_body p year s of
        Inl e \<Rightarrow> Inl e
      | Inr s' \<Rightarrow> if capital_depleted s' then Inr s' else year_loop p rest s')"

text \<open>The state before the loop: the year-0 row is already in \<^verbatim>\<open>data\<close>.\<close>

definition initial_state :: "params \<Rightarrow> loop_state" where
  "initial_state p =
     \<lparr>capital = start_capital p, capital_depleted = False,
      data = [\<lparr>Year = current_year p, Profit = 0, Profit_Tax = 0, Dividend_Tax = 0,
               Gross_Withdrawal = 0, Net_Withdrawal = 0,
               End_Capital = start_capital p\<rparr>]\<rparr>"

text \<open>
  \<^verbatim>\<open>simulate_withdrawal\<close> returns \<^verbatim>\<open>(df, capital_depleted, capital)\<close>; the data frame
  is modelled by the list of its rows. \<^verbatim>\<open>range(1, years + 1)\<close> is empty when
  \<^verbatim>\<open>years\<close> is below 1.
\<close>

definition simulate_withdrawal :: "params \<Rightarrow> error + (year_record list \<times> bool \<times> real)" where
  "simulate_withdrawal p =
     (case year_loop p [1..<nat (years p + 1)] (initial_state p) of
        Inl e \<Rightarrow> Inl e
      | Inr s \<Rightarrow> Inr (data s, capital_depleted s, capital s))"

subsection \<open>The automatic net withdrawal calculation\<close>

definition tol :: real where
  "tol = 1"

text \<open>
  The \<^verbatim>\<open>while high - low > tol\<close> loop; it returns the final \<^verbatim>\<open>(low, high)\<close>.
  An exception of \<^verbatim>\<open>simulate_withdrawal\<close> leaves the loop.
\<close>

function bisect :: "params \<Rightarrow> real \<Rightarrow> real \<Rightarrow> error + (real \<times> real)" where
  "bisect p low high =
     (if high - low > tol then
        (let test_withdrawal = (low + high) / 2 in
         case simulate_withdrawal (p\<lparr>net_withdrawal := test_withdrawal\<rparr>) of
           Inl e \<Rightarrow> Inl e
         | Inr (df, depleted, end_capital) \<Rightarrow>
             if end_capital > 0 then bisect p test_withdrawal high
             else bisect p low test_withdrawal)
      else Inr (low, high))"
  by pat_completeness auto
termination
proof -
  have halve: "nat \<lceil>w / 2\<rceil> < nat \<lceil>w\<rceil>" if w: "1 < w" for w :: real
  proof -
    have n2: "2 \<le> \<lceil>w\<rceil>"
      using w by linarith
    have "w / 2 \<le> of_int \<lceil>w\<rceil> / 2"
      by (simp add: divide_right_mono)
    also have "\<dots> \<le> of_int (\<lceil>w\<rceil> - 1)"
      using n2 by simp
    finally have "\<lceil>w / 2\<rceil> \<le> \<lceil>w\<rceil> - 1"
      by (simp only: ceiling_le_iff)
    then show ?thesis
      using n2 by linarith
  qed
  show ?thesis
  proof (relation "measure (\<lambda>(p, low, high). nat \<lceil>high - low\<rceil>)")
    show "wf (measure (\<lambda>(p, low, high). nat \<lceil>high - low\<rceil>))"
      by simp
  next
    fix p :: params and low high test :: real
    assume w: "tol < high - low" and t: "test = (low + high) / 2"
    have "high - test = (high - low) / 2"
      using t by (simp add: field_simps)
    moreover have "nat \<lceil>(high - low) / 2\<rceil> < nat \<lceil>high - low\<rceil>"
      using w by (intro halve) (simp add: tol_def)
    ultimately have "nat \<lceil>high - test\<rceil> < nat \<lceil>high - low\<rceil>"
      by (simp only:)
    then show "((p, test, high), (p, low, high))
        \<in> measure (\<lambda>(p, low, high). nat \<lceil>high - low\<rceil>)"
      by simp
  next
    fix p :: params and low high test :: real
    assume w: "tol < high - low" and t: "test = (low + high) / 2"
    have "test - low = (high - low) / 2"
      using t by (simp add: field_simps)
    moreover have "nat \<lceil>(high - low) / 2\<rceil> < nat \<lceil>high - low\<rceil>"
      using w by (intro halve) (simp add: tol_def)
    ultimately have "nat \<lceil>test - low\<rceil> < nat \<lceil>high - low\<rceil>"
      by (simp only:)
    then show "((p, low, test), (p, low, high))
        \<in> measure (\<lambda>(p, low, high). nat \<lceil>high - low\<rceil>)"
      by simp
  qed
qed

text \<open>
  The block under \<^verbatim>\<open>if auto_calc_withdrawal:\<close>: the value it assigns to
  \<^verbatim>\<open>net_withdrawal\<close>. The \<^verbatim>\<open>net_withdrawal\<close> field of the argument is not read.
\<close>

definition auto_calc_withdrawal :: "params \<Rightarrow> error + real" where
  "auto_calc_withdrawal p =
     (case bisect p 0 (start_capital p * 2) of
        Inl e \<Rightarrow> Inl e
      | Inr (low, high) \<Rightarrow> Inr ((low + high) / 2))"

subsection \<open>Closed forms used in the proofs\<close>

text \<open>
  The expressions of the loop body as functions of the capital before the period and of
  the year. They are proved equal to what \<open>year_body\<close> computes (lemma
  \<open>year_body_eq\<close>); no claim is stated in terms of them alone.
\<close>

definition profit_tax_of :: "params \<Rightarrow> real \<Rightarrow> real" where
  "profit_tax_of p profit =
     (if profit \<le> tax_threshold1 p then profit * tax_rate1 p
      else tax_threshold1 p * tax_rate1 p + (profit - tax_threshold1 p) * tax_rate2 p)"

definition after_tax :: "params \<Rightarrow> real \<Rightarrow> real" where
  "after_tax p c = c + c * annual_return p - profit_tax_of p (c * annual_return p)"

definition gross_of :: "params \<Rightarrow> nat \<Rightarrow> real" where
  "gross_of p year =
     net_withdrawal p * (1 + inflation p) ^ (year - 1) / (1 - dividend_tax p)"

definition row_of :: "params \<Rightarrow> nat \<Rightarrow> real \<Rightarrow> year_record" where
  "row_of p year c =
     (let g = (if after_tax p c - gross_of p year < 0 then after_tax p c
               else gross_of p year)
      in \<lparr>Year = current_year p + int year, Profit = c * annual_return p,
          Profit_Tax = profit_tax_of p (c * annual_return p),
          Dividend_Tax = g * dividend_tax p, Gross_Withdrawal = g,
          Net_Withdrawal = g * (1 - dividend_tax p),
          End_Capital = max 0 (after_tax p c - gross_of p year)\<rparr>)"

text \<open>
  A bound used for the difference of the final capitals of two runs: each year the
  difference grows by the factor \<open>G\<close> at most and by \<open>D year\<close> more.
\<close>

fun gap :: "real \<Rightarrow> (nat \<Rightarrow> real) \<Rightarrow> nat list \<Rightarrow> real \<Rightarrow> real" where
  "gap G D [] \<delta> = \<delta>"
| "gap G D (y # ys) \<delta> = gap G D ys (G * \<delta> + D y)"

section \<open>The loop body and the loop\<close>

lemmas sim_eval =
  simulate_withdrawal_def initial_state_def year_body_def truediv_def Let_def upt_rec

lemma year_body_zero_div:
  "dividend_tax p = 1 \<Longrightarrow> year_body p year s = Inl ZeroDivisionError"
  by (simp add: year_body_def truediv_def)

lemma year_body_eq:
  assumes "dividend_tax p \<noteq> 1"
  shows "year_body p year s =
    Inr \<lparr>capital = max 0 (after_tax p (capital s) - gross_of p year),
         capital_depleted =
           (after_tax p (capital s) - gross_of p year < 0 \<or> capital_depleted s),
         data = data s @ [row_of p year (capital s)]\<rparr>"
  using assms
  by (simp add: year_body_def truediv_def Let_def row_of_def after_tax_def gross_of_def
      profit_tax_of_def)


lemma year_loop_unfold:
  assumes "dividend_tax p \<noteq> 1"
  shows "year_loop p (year # rest) s =
    (if after_tax p (capital s) - gross_of p year < 0 \<or> capital_depleted s
     then Inr \<lparr>capital = max 0 (after_tax p (capital s) - gross_of p year),
               capital_depleted = True,
               data = data s @ [row_of p year (capital s)]\<rparr>
     else year_loop p rest
            \<lparr>capital = max 0 (after_tax p (capital s) - gross_of p year),
             capital_depleted = False,
             data = data s @ [row_of p year (capital s)]\<rparr>)"
  by (simp add: year_body_eq [OF assms])

lemma year_loop_returns:
  "dividend_tax p \<noteq> 1 \<Longrightarrow> \<exists>s'. year_loop p ys s = Inr s'"
  by (induction ys arbitrary: s) (simp_all add: year_loop_unfold del: year_loop.simps(2))

text \<open>Every row the loop appends is a \<open>row_of\<close>, and there is at most one per year.\<close>

lemma year_loop_rows:
  assumes "year_loop p ys s = Inr s'"
  shows "\<exists>new. data s' = data s @ new \<and> length new \<le> length ys
           \<and> (\<forall>r\<in>set new. \<exists>y c. r = row_of p y c)"
  using assms
proof (induction ys arbitrary: s)
  case Nil
  then show ?case by simp
next
  case (Cons y ys)
  show ?case
  proof (cases "dividend_tax p = 1")
    case True
    then show ?thesis
      using Cons.prems by (simp add: year_body_zero_div)
  next
    case False
    let ?s1 = "\<lparr>capital = max 0 (after_tax p (capital s) - gross_of p y),
               capital_depleted = False,
               data = data s @ [row_of p y (capital s)]\<rparr>"
    show ?thesis
    proof (cases "after_tax p (capital s) - gross_of p y < 0 \<or> capital_depleted s")
      case True
      then have "data s' = data s @ [row_of p y (capital s)]"
        using Cons.prems
        by (auto simp add: year_loop_unfold [OF False] simp del: year_loop.simps(2))
      then show ?thesis by auto
    next
      case stay: False
      then have "year_loop p ys ?s1 = Inr s'"
        using Cons.prems by (simp add: year_loop_unfold [OF False] del: year_loop.simps(2))
      from Cons.IH [OF this] obtain new where
        "data s' = data ?s1 @ new" "length new \<le> length ys"
        "\<forall>r\<in>set new. \<exists>y c. r = row_of p y c"
        by blast
      then have "data s' = data s @ (row_of p y (capital s) # new)
          \<and> length (row_of p y (capital s) # new) \<le> length (y # ys)
          \<and> (\<forall>r\<in>set (row_of p y (capital s) # new). \<exists>y c. r = row_of p y c)"
        by auto
      then show ?thesis by blast
    qed
  qed
qed

lemma simulate_rows:
  assumes "simulate_withdrawal p = Inr (df, depleted, end_capital)"
  shows "\<exists>new. df = hd (data (initial_state p)) # new
           \<and> int (length new) \<le> max 0 (years p)
           \<and> (\<forall>r\<in>set new. \<exists>y c. r = row_of p y c)"
proof -
  obtain s' where s': "year_loop p [1..<nat (years p + 1)] (initial_state p) = Inr s'"
    and df: "df = data s'"
    using assms by (auto simp add: simulate_withdrawal_def split: sum.splits)
  from year_loop_rows [OF s'] obtain new where
    "data s' = data (initial_state p) @ new"
    "length new \<le> length [1..<nat (years p + 1)]"
    "\<forall>r\<in>set new. \<exists>y c. r = row_of p y c"
    by blast
  then show ?thesis
    using df by (auto simp add: initial_state_def)
qed

lemma row_of_nonneg: "0 \<le> End_Capital (row_of p y c)"
  by (simp add: row_of_def Let_def)

lemma row_of_net:
  "Net_Withdrawal (row_of p y c) = Gross_Withdrawal (row_of p y c) * (1 - dividend_tax p)"
  by (simp add: row_of_def Let_def)

lemma row_of_split:
  "Net_Withdrawal (row_of p y c) + Dividend_Tax (row_of p y c)
     = Gross_Withdrawal (row_of p y c)"
  by (simp add: row_of_def Let_def algebra_simps)

lemma row_of_tax:
  "Profit_Tax (row_of p y c) =
     (if Profit (row_of p y c) \<le> tax_threshold1 p then Profit (row_of p y c) * tax_rate1 p
      else tax_threshold1 p * tax_rate1 p
           + (Profit (row_of p y c) - tax_threshold1 p) * tax_rate2 p)"
  by (simp add: row_of_def Let_def profit_tax_of_def)

lemma row_of_profit_tax_neg:
  assumes "Profit (row_of p y c) < 0" and "0 \<le> tax_threshold1 p"
  shows "Profit_Tax (row_of p y c) = Profit (row_of p y c) * tax_rate1 p"
    and "Profit_Tax (row_of p y c) < 0 \<longleftrightarrow> 0 < tax_rate1 p"
proof -
  show e: "Profit_Tax (row_of p y c) = Profit (row_of p y c) * tax_rate1 p"
    using assms by (simp add: row_of_tax)
  show "Profit_Tax (row_of p y c) < 0 \<longleftrightarrow> 0 < tax_rate1 p"
    unfolding e using assms(1) by (simp add: mult_less_0_iff)
qed

lemma year_loop_capital_nonneg:
  "year_loop p ys s = Inr s' \<Longrightarrow> 0 \<le> capital s \<Longrightarrow> 0 \<le> capital s'"
proof (induction ys arbitrary: s)
  case Nil
  then show ?case by simp
next
  case (Cons y ys)
  show ?case
  proof (cases "dividend_tax p = 1")
    case True
    then show ?thesis
      using Cons.prems by (simp add: year_body_zero_div)
  next
    case False
    show ?thesis
      using Cons.prems Cons.IH
      by (auto simp add: year_loop_unfold [OF False] simp del: year_loop.simps(2)
          split: if_splits)
  qed
qed

lemma simulate_returns:
  assumes "dividend_tax p \<noteq> 1"
  shows "\<exists>df depleted end_capital. simulate_withdrawal p = Inr (df, depleted, end_capital)"
proof -
  obtain s' where "year_loop p [1..<nat (years p + 1)] (initial_state p) = Inr s'"
    using year_loop_returns [OF assms] by blast
  then show ?thesis
    by (simp add: simulate_withdrawal_def)
qed

lemma simulate_final_nonneg:
  assumes "simulate_withdrawal p = Inr (df, depleted, end_capital)"
    and "0 \<le> start_capital p"
  shows "0 \<le> end_capital"
proof -
  obtain s' where s': "year_loop p [1..<nat (years p + 1)] (initial_state p) = Inr s'"
    and c: "end_capital = capital s'"
    using assms(1) by (auto simp add: simulate_withdrawal_def split: sum.splits)
  have "0 \<le> capital (initial_state p)"
    using assms(2) by (simp add: initial_state_def)
  then show ?thesis
    using year_loop_capital_nonneg [OF s'] c by simp
qed

lemma simulate_length:
  assumes "simulate_withdrawal p = Inr (df, depleted, end_capital)"
  shows "int (length df) \<le> max 0 (years p) + 1"
  using simulate_rows [OF assms] by auto

section \<open>Two runs with different base withdrawals\<close>

lemma after_tax_update [simp]:
  "after_tax (p\<lparr>net_withdrawal := w\<rparr>) c = after_tax p c"
  by (simp add: after_tax_def profit_tax_of_def)

lemma gross_of_nonneg:
  assumes "dividend_tax p < 1" and "- 1 \<le> inflation p" and "0 \<le> net_withdrawal p"
  shows "0 \<le> gross_of p y"
  using assms by (simp add: gross_of_def)

lemma gross_of_mono:
  assumes "dividend_tax p < 1" and "- 1 \<le> inflation p" and "net_withdrawal p \<le> w"
  shows "gross_of p y \<le> gross_of (p\<lparr>net_withdrawal := w\<rparr>) y"
proof -
  have "net_withdrawal p * (1 + inflation p) ^ (y - 1) \<le> w * (1 + inflation p) ^ (y - 1)"
    using assms(2,3) by (intro mult_right_mono) simp_all
  then show ?thesis
    using assms(1) by (simp add: gross_of_def divide_right_mono)
qed

text \<open>The tax on a larger profit is larger by no more than the difference in profit.\<close>

lemma profit_tax_of_slope:
  assumes "0 \<le> tax_rate1 p" "tax_rate1 p \<le> 1" "0 \<le> tax_rate2 p" "tax_rate2 p \<le> 1"
    and "x \<le> y"
  shows "profit_tax_of p y - profit_tax_of p x \<le> y - x"
proof -
  have a: "(y - x) * tax_rate1 p \<le> y - x" "(y - x) * tax_rate2 p \<le> y - x"
    using assms by (simp_all add: mult_left_le)
  consider "y \<le> tax_threshold1 p" | "x \<le> tax_threshold1 p" "tax_threshold1 p < y"
    | "tax_threshold1 p < x"
    by linarith
  then show ?thesis
  proof cases
    case 1
    then show ?thesis
      using assms(5) a by (simp add: profit_tax_of_def algebra_simps)
  next
    case 2
    have "(tax_threshold1 p - x) * tax_rate1 p \<le> tax_threshold1 p - x"
      using 2 assms(2) by (simp add: mult_left_le)
    moreover have "(y - tax_threshold1 p) * tax_rate2 p \<le> y - tax_threshold1 p"
      using 2 assms(4) by (simp add: mult_left_le)
    ultimately show ?thesis
      using 2 by (simp add: profit_tax_of_def algebra_simps)
  next
    case 3
    then show ?thesis
      using assms(5) a by (simp add: profit_tax_of_def algebra_simps)
  qed
qed

lemma after_tax_mono:
  assumes "0 \<le> tax_rate1 p" "tax_rate1 p \<le> 1" "0 \<le> tax_rate2 p" "tax_rate2 p \<le> 1"
    and "0 \<le> annual_return p" and "a \<le> b"
  shows "after_tax p a \<le> after_tax p b"
proof -
  have "a * annual_return p \<le> b * annual_return p"
    using assms(5,6) by (simp add: mult_right_mono)
  from profit_tax_of_slope [OF assms(1-4) this] show ?thesis
    using assms(6) by (simp add: after_tax_def)
qed

lemma after_tax_linear:
  assumes "annual_return p < 0" and "0 \<le> tax_threshold1 p" and "0 \<le> c"
  shows "after_tax p c = c * (1 + annual_return p * (1 - tax_rate1 p))"
proof -
  have "c * annual_return p \<le> 0"
    using assms(1,3) by (simp add: mult_nonneg_nonpos)
  then have "c * annual_return p \<le> tax_threshold1 p"
    using assms(2) by linarith
  then show ?thesis
    by (simp add: after_tax_def profit_tax_of_def algebra_simps)
qed

text \<open>
  The order of two capitals, together with the order of their after-tax values, is kept
  by one more year in which neither run is clamped.
\<close>

lemma after_tax_order:
  assumes r: "0 \<le> tax_rate1 p" "tax_rate1 p \<le> 1" "0 \<le> tax_rate2 p" "tax_rate2 p \<le> 1"
    and T: "0 \<le> tax_threshold1 p"
    and c: "0 \<le> c2" "c2 \<le> c1" "after_tax p c2 \<le> after_tax p c1"
    and g: "0 \<le> g1" "g1 \<le> g2"
    and a: "0 \<le> after_tax p c2 - g2"
  shows "after_tax p (after_tax p c2 - g2) \<le> after_tax p (after_tax p c1 - g1)"
proof (cases "0 \<le> annual_return p")
  case True
  have "after_tax p c2 - g2 \<le> after_tax p c1 - g1"
    using c(3) g(2) by linarith
  then show ?thesis
    by (rule after_tax_mono [OF r True])
next
  case False
  then have neg: "annual_return p < 0"
    by simp
  define m where "m = 1 + annual_return p * (1 - tax_rate1 p)"
  have lin: "after_tax p x = x * m" if "0 \<le> x" for x
    using after_tax_linear [OF neg T that] by (simp add: m_def)
  have b: "0 \<le> after_tax p c1 - g1"
    using a c(3) g(2) by linarith
  have le: "after_tax p c2 - g2 \<le> after_tax p c1 - g1"
    using c(3) g(2) by linarith
  show ?thesis
  proof (cases "0 \<le> m")
    case True
    then show ?thesis
      using le by (simp add: lin [OF a] lin [OF b] mult_right_mono)
  next
    case m: False
    have c1: "0 \<le> c1"
      using c(1,2) by linarith
    have "c2 * m \<le> c1 * m"
      using c(3) by (simp add: lin [OF c(1)] lin [OF c1])
    then have "(c1 - c2) * m \<ge> 0"
      by (simp add: algebra_simps)
    moreover have "(c1 - c2) * m \<le> 0"
      using c(2) m by (simp add: mult_nonneg_nonpos)
    ultimately have "(c1 - c2) * m = 0"
      by linarith
    then have eq: "c1 = c2"
      using m by simp
    have "c2 * m \<le> 0"
      using c(1) m by (simp add: mult_nonneg_nonpos)
    then have "after_tax p c2 - g2 = 0" and "after_tax p c1 - g1 = 0"
      using a b g eq by (simp_all add: lin [OF c(1)])
    then show ?thesis
      by simp
  qed
qed

lemma year_loop_data_length:
  assumes "year_loop p ys s = Inr s'"
  shows "length (data s) \<le> length (data s')"
  using year_loop_rows [OF assms] by auto

text \<open>
  Two runs of the loop over the same years, the second with the larger base withdrawal
  and starting from a capital that is not larger.
\<close>

lemma year_loop_mono:
  assumes r: "0 \<le> tax_rate1 p" "tax_rate1 p \<le> 1" "0 \<le> tax_rate2 p" "tax_rate2 p \<le> 1"
    and T: "0 \<le> tax_threshold1 p"
    and d: "dividend_tax p < 1"
    and i: "- 1 \<le> inflation p"
    and n: "0 \<le> net_withdrawal p" "net_withdrawal p \<le> w"
  shows "year_loop p ys s1 = Inr t1 \<Longrightarrow>
    year_loop (p\<lparr>net_withdrawal := w\<rparr>) ys s2 = Inr t2 \<Longrightarrow>
    \<not> capital_depleted s1 \<Longrightarrow> \<not> capital_depleted s2 \<Longrightarrow>
    0 \<le> capital s2 \<Longrightarrow> capital s2 \<le> capital s1 \<Longrightarrow>
    after_tax p (capital s2) \<le> after_tax p (capital s1) \<Longrightarrow>
    length (data s2) \<le> length (data s1) \<Longrightarrow>
    capital t2 \<le> capital t1
    \<and> (capital_depleted t1 \<longrightarrow>
         capital_depleted t2 \<and> length (data t2) \<le> length (data t1))"
proof (induction ys arbitrary: s1 s2)
  case Nil
  then show ?case
    by simp
next
  case (Cons y ys)
  let ?q = "p\<lparr>net_withdrawal := w\<rparr>"
  define a1 where "a1 = after_tax p (capital s1)"
  define a2 where "a2 = after_tax p (capital s2)"
  define g1 where "g1 = gross_of p y"
  define g2 where "g2 = gross_of ?q y"
  define s1' where "s1' = \<lparr>capital = max 0 (a1 - g1), capital_depleted = False,
    data = data s1 @ [row_of p y (capital s1)]\<rparr>"
  define s2' where "s2' = \<lparr>capital = max 0 (a2 - g2), capital_depleted = False,
    data = data s2 @ [row_of ?q y (capital s2)]\<rparr>"
  have dp: "dividend_tax p \<noteq> 1" and dq: "dividend_tax ?q \<noteq> 1"
    using d by simp_all
  have g: "0 \<le> g1" "g1 \<le> g2"
    unfolding g1_def g2_def
    using gross_of_nonneg [OF d i n(1)] gross_of_mono [OF d i n(2)] by simp_all
  have a: "a2 \<le> a1"
    using Cons.prems(7) by (simp add: a1_def a2_def)
  have u1: "year_loop p (y # ys) s1 =
      (if a1 - g1 < 0 then Inr (s1'\<lparr>capital_depleted := True\<rparr>) else year_loop p ys s1')"
    using Cons.prems(3)
    by (simp add: year_loop_unfold [OF dp] a1_def g1_def s1'_def del: year_loop.simps(2))
  have u2: "year_loop ?q (y # ys) s2 =
      (if a2 - g2 < 0 then Inr (s2'\<lparr>capital_depleted := True\<rparr>) else year_loop ?q ys s2')"
    using Cons.prems(4)
    by (simp add: year_loop_unfold [OF dq] a2_def g2_def s2'_def del: year_loop.simps(2))
  consider (both) "a1 - g1 < 0" | (second) "0 \<le> a1 - g1" "a2 - g2 < 0"
    | (none) "0 \<le> a1 - g1" "0 \<le> a2 - g2"
    by linarith
  then show ?case
  proof cases
    case both
    then have "a2 - g2 < 0"
      using a g by linarith
    then have "t1 = s1'\<lparr>capital_depleted := True\<rparr>" "t2 = s2'\<lparr>capital_depleted := True\<rparr>"
      using both Cons.prems(1,2) u1 u2 by simp_all
    then show ?thesis
      using both \<open>a2 - g2 < 0\<close> Cons.prems(8) by (simp add: s1'_def s2'_def)
  next
    case second
    have t2: "t2 = s2'\<lparr>capital_depleted := True\<rparr>"
      using second Cons.prems(2) u2 by simp
    have run1: "year_loop p ys s1' = Inr t1"
      using second Cons.prems(1) u1 by simp
    have "0 \<le> capital s1'"
      by (simp add: s1'_def)
    then have "0 \<le> capital t1"
      using year_loop_capital_nonneg [OF run1] by simp
    moreover have "length (data s1') \<le> length (data t1)"
      using year_loop_data_length [OF run1] .
    ultimately show ?thesis
      using second Cons.prems(8) by (simp add: t2 s1'_def s2'_def)
  next
    case none
    have run1: "year_loop p ys s1' = Inr t1"
      using none Cons.prems(1) u1 by simp
    have run2: "year_loop ?q ys s2' = Inr t2"
      using none Cons.prems(2) u2 by simp
    have c1: "capital s1' = a1 - g1" and c2: "capital s2' = a2 - g2"
      using none by (simp_all add: s1'_def s2'_def)
    have "after_tax p (a2 - g2) \<le> after_tax p (a1 - g1)"
      unfolding a1_def a2_def
      using after_tax_order [OF r T Cons.prems(5,6,7) g] none(2)
      by (simp add: a2_def)
    then show ?thesis
      using Cons.IH [OF run1 run2] none a g Cons.prems(8)
      by (simp add: c1 c2) (simp add: s1'_def s2'_def)
  qed
qed

lemma gap_mono:
  "0 \<le> G \<Longrightarrow> a \<le> b \<Longrightarrow> gap G D ys a \<le> gap G D ys b"
  by (induction ys arbitrary: a b) (simp_all add: mult_left_mono)

lemma gap_nonneg:
  "0 \<le> G \<Longrightarrow> (\<And>y. 0 \<le> D y) \<Longrightarrow> 0 \<le> a \<Longrightarrow> 0 \<le> gap G D ys a"
  by (induction ys arbitrary: a) simp_all

lemma gap_upt:
  "gap G D [m..<m + j] a = G ^ j * a + (\<Sum>k<j. G ^ (j - 1 - k) * D (m + k))"
proof (induction j arbitrary: m a)
  case 0
  then show ?case by simp
next
  case (Suc j)
  have "[m..<m + Suc j] = m # [Suc m..<Suc m + j]"
    by (simp add: upt_conv_Cons)
  then have "gap G D [m..<m + Suc j] a = gap G D [Suc m..<Suc m + j] (G * a + D m)"
    by simp
  also have "\<dots> = G ^ j * (G * a + D m) + (\<Sum>k<j. G ^ (j - 1 - k) * D (Suc m + k))"
    by (rule Suc.IH)
  also have "\<dots> = G ^ Suc j * a
      + (G ^ j * D m + (\<Sum>k<j. G ^ (j - 1 - k) * D (Suc m + k)))"
    by (simp add: algebra_simps)
  also have "G ^ j * D m + (\<Sum>k<j. G ^ (j - 1 - k) * D (Suc m + k))
      = (\<Sum>k<Suc j. G ^ (Suc j - 1 - k) * D (m + k))"
    by (simp add: sum.lessThan_Suc_shift del: sum.lessThan_Suc)
  finally show ?case .
qed

lemma profit_tax_of_mono:
  assumes "0 \<le> tax_rate1 p" "0 \<le> tax_rate2 p" and "x \<le> y"
  shows "profit_tax_of p x \<le> profit_tax_of p y"
proof -
  consider "y \<le> tax_threshold1 p" | "x \<le> tax_threshold1 p" "tax_threshold1 p < y"
    | "tax_threshold1 p < x"
    by linarith
  then show ?thesis
  proof cases
    case 1
    then show ?thesis
      using assms by (simp add: profit_tax_of_def mult_right_mono)
  next
    case 2
    have "x * tax_rate1 p \<le> tax_threshold1 p * tax_rate1 p"
      using 2 assms(1) by (simp add: mult_right_mono)
    moreover have "0 \<le> (y - tax_threshold1 p) * tax_rate2 p"
      using 2 assms(2) by simp
    ultimately show ?thesis
      using 2 by (simp add: profit_tax_of_def)
  next
    case 3
    then show ?thesis
      using assms by (simp add: profit_tax_of_def mult_right_mono)
  qed
qed

lemma after_tax_lipschitz:
  assumes "0 \<le> tax_rate1 p" "tax_rate1 p \<le> 1" "0 \<le> tax_rate2 p"
    and "0 \<le> tax_threshold1 p" and "0 \<le> c2" "c2 \<le> c1"
  shows "after_tax p c1 - after_tax p c2 \<le> (1 + max 0 (annual_return p)) * (c1 - c2)"
proof (cases "0 \<le> annual_return p")
  case True
  have "c2 * annual_return p \<le> c1 * annual_return p"
    using True assms(6) by (simp add: mult_right_mono)
  from profit_tax_of_mono [OF assms(1,3) this] show ?thesis
    using True by (simp add: after_tax_def algebra_simps)
next
  case False
  then have neg: "annual_return p < 0"
    by simp
  have c1: "0 \<le> c1"
    using assms(5,6) by linarith
  have "after_tax p c1 - after_tax p c2
      = (c1 - c2) * (1 + annual_return p * (1 - tax_rate1 p))"
    by (simp add: after_tax_linear [OF neg assms(4)] assms(5) c1 algebra_simps)
  also have "\<dots> \<le> (c1 - c2) * 1"
  proof (rule mult_left_mono)
    have "annual_return p * (1 - tax_rate1 p) \<le> 0"
      using neg assms(2) by (simp add: mult_nonpos_nonneg)
    then show "1 + annual_return p * (1 - tax_rate1 p) \<le> 1"
      by simp
    show "0 \<le> c1 - c2"
      using assms(6) by simp
  qed
  finally show ?thesis
    using neg by simp
qed

lemma after_tax_zero:
  "0 \<le> tax_threshold1 p \<Longrightarrow> after_tax p 0 = 0"
  by (simp add: after_tax_def profit_tax_of_def)

lemma after_tax_growth:
  assumes "0 \<le> tax_rate1 p" "tax_rate1 p \<le> 1" "0 \<le> tax_rate2 p"
    and "0 \<le> tax_threshold1 p" and "0 \<le> c"
  shows "after_tax p c \<le> (1 + max 0 (annual_return p)) * c"
  using after_tax_lipschitz [OF assms(1-4) order_refl assms(5)] after_tax_zero [OF assms(4)]
  by simp

lemma gap_ge:
  "1 \<le> G \<Longrightarrow> (\<And>y. 0 \<le> D y) \<Longrightarrow> 0 \<le> a \<Longrightarrow> a \<le> gap G D ys a"
proof (induction ys arbitrary: a)
  case Nil
  then show ?case by simp
next
  case (Cons y ys)
  have "a * 1 \<le> a * G"
    using Cons.prems(1,3) by (intro mult_left_mono) simp_all
  then have "a \<le> G * a + D y"
    using Cons.prems(2) [of y] by (simp add: mult.commute add_increasing2)
  moreover have "0 \<le> G * a + D y"
    using Cons.prems by simp
  ultimately show ?case
    using Cons.IH [of "G * a + D y"] Cons.prems(1,2) by simp
qed

text \<open>A run of the loop never ends above the bound that starts from its own capital.\<close>

lemma year_loop_alone:
  assumes r: "0 \<le> tax_rate1 p" "tax_rate1 p \<le> 1" "0 \<le> tax_rate2 p"
    and T: "0 \<le> tax_threshold1 p"
    and g: "\<And>y. 0 \<le> gross_of p y"
    and D: "\<And>y. 0 \<le> D y"
  shows "year_loop p ys s = Inr t \<Longrightarrow> 0 \<le> capital s \<Longrightarrow>
    capital t \<le> gap (1 + max 0 (annual_return p)) D ys (capital s)"
proof (induction ys arbitrary: s)
  case Nil
  then show ?case by simp
next
  case (Cons y ys)
  let ?G = "1 + max 0 (annual_return p)"
  have G: "0 \<le> ?G" "1 \<le> ?G"
    by simp_all
  show ?case
  proof (cases "dividend_tax p = 1")
    case True
    then show ?thesis
      using Cons.prems(1) by (simp add: year_body_zero_div)
  next
    case dp: False
    define c' where "c' = max 0 (after_tax p (capital s) - gross_of p y)"
    have "after_tax p (capital s) \<le> ?G * capital s"
      by (rule after_tax_growth [OF r T Cons.prems(2)])
    moreover have "0 \<le> ?G * capital s"
      using Cons.prems(2) by simp
    ultimately have c'le: "c' \<le> ?G * capital s + D y" and c'0: "0 \<le> c'"
      using g [of y] D [of y] by (simp_all add: c'_def)
    show ?thesis
    proof (cases "after_tax p (capital s) - gross_of p y < 0 \<or> capital_depleted s")
      case True
      then have "capital t = c'"
        using Cons.prems(1)
        by (auto simp add: year_loop_unfold [OF dp] c'_def simp del: year_loop.simps(2))
      moreover have "c' \<le> gap ?G D ys c'"
        by (rule gap_ge [OF G(2) D c'0])
      moreover have "gap ?G D ys c' \<le> gap ?G D ys (?G * capital s + D y)"
        by (rule gap_mono [OF G(1) c'le])
      ultimately show ?thesis
        by simp
    next
      case False
      define s' where "s' = \<lparr>capital = c', capital_depleted = False,
        data = data s @ [row_of p y (capital s)]\<rparr>"
      have run: "year_loop p ys s' = Inr t"
        using False Cons.prems(1)
        by (simp add: year_loop_unfold [OF dp] c'_def s'_def del: year_loop.simps(2))
      have "capital t \<le> gap ?G D ys (capital s')"
        by (rule Cons.IH [OF run]) (simp add: s'_def c'0)
      also have "\<dots> \<le> gap ?G D ys (?G * capital s + D y)"
        using gap_mono [OF G(1) c'le] by (simp add: s'_def)
      finally show ?thesis
        by simp
    qed
  qed
qed

text \<open>
  Two runs as in \<open>year_loop_mono\<close>: the final capitals differ by no more than the bound
  that starts from the difference of the capitals and adds, each year, the difference
  of the gross withdrawals.
\<close>

lemma year_loop_gap:
  assumes r: "0 \<le> tax_rate1 p" "tax_rate1 p \<le> 1" "0 \<le> tax_rate2 p" "tax_rate2 p \<le> 1"
    and T: "0 \<le> tax_threshold1 p"
    and d: "dividend_tax p < 1"
    and i: "- 1 \<le> inflation p"
    and n: "0 \<le> net_withdrawal p" "net_withdrawal p \<le> w"
  shows "year_loop p ys s1 = Inr t1 \<Longrightarrow>
    year_loop (p\<lparr>net_withdrawal := w\<rparr>) ys s2 = Inr t2 \<Longrightarrow>
    \<not> capital_depleted s1 \<Longrightarrow> \<not> capital_depleted s2 \<Longrightarrow>
    0 \<le> capital s2 \<Longrightarrow> capital s2 \<le> capital s1 \<Longrightarrow>
    after_tax p (capital s2) \<le> after_tax p (capital s1) \<Longrightarrow>
    capital t1 - capital t2
      \<le> gap (1 + max 0 (annual_return p))
          (\<lambda>y. gross_of (p\<lparr>net_withdrawal := w\<rparr>) y - gross_of p y) ys
          (capital s1 - capital s2)"
proof (induction ys arbitrary: s1 s2)
  case Nil
  then show ?case
    by simp
next
  case (Cons y ys)
  let ?q = "p\<lparr>net_withdrawal := w\<rparr>"
  let ?G = "1 + max 0 (annual_return p)"
  let ?D = "\<lambda>y. gross_of ?q y - gross_of p y"
  define a1 where "a1 = after_tax p (capital s1)"
  define a2 where "a2 = after_tax p (capital s2)"
  define g1 where "g1 = gross_of p y"
  define g2 where "g2 = gross_of ?q y"
  define s1' where "s1' = \<lparr>capital = max 0 (a1 - g1), capital_depleted = False,
    data = data s1 @ [row_of p y (capital s1)]\<rparr>"
  define s2' where "s2' = \<lparr>capital = max 0 (a2 - g2), capital_depleted = False,
    data = data s2 @ [row_of ?q y (capital s2)]\<rparr>"
  have G: "0 \<le> ?G"
    by simp
  have dp: "dividend_tax p \<noteq> 1" and dq: "dividend_tax ?q \<noteq> 1"
    using d by simp_all
  have gp: "0 \<le> gross_of p y" for y
    by (rule gross_of_nonneg [OF d i n(1)])
  have D: "0 \<le> ?D y" for y
    using gross_of_mono [OF d i n(2), of y] by simp
  have g: "0 \<le> g1" "g1 \<le> g2"
    unfolding g1_def g2_def using gp [of y] D [of y] by simp_all
  have a: "a2 \<le> a1"
    using Cons.prems(7) by (simp add: a1_def a2_def)
  have lip: "a1 - a2 \<le> ?G * (capital s1 - capital s2)"
    unfolding a1_def a2_def
    by (rule after_tax_lipschitz [OF r(1-3) T Cons.prems(5,6)])
  have step: "(a1 - g1) - (a2 - g2) \<le> ?G * (capital s1 - capital s2) + ?D y"
    using lip by (simp add: g1_def g2_def)
  have step0: "0 \<le> ?G * (capital s1 - capital s2) + ?D y"
    using Cons.prems(6) D [of y] by simp
  have u1: "year_loop p (y # ys) s1 =
      (if a1 - g1 < 0 then Inr (s1'\<lparr>capital_depleted := True\<rparr>) else year_loop p ys s1')"
    using Cons.prems(3)
    by (simp add: year_loop_unfold [OF dp] a1_def g1_def s1'_def del: year_loop.simps(2))
  have u2: "year_loop ?q (y # ys) s2 =
      (if a2 - g2 < 0 then Inr (s2'\<lparr>capital_depleted := True\<rparr>) else year_loop ?q ys s2')"
    using Cons.prems(4)
    by (simp add: year_loop_unfold [OF dq] a2_def g2_def s2'_def del: year_loop.simps(2))
  consider (both) "a1 - g1 < 0" | (second) "0 \<le> a1 - g1" "a2 - g2 < 0"
    | (none) "0 \<le> a1 - g1" "0 \<le> a2 - g2"
    by linarith
  then show ?case
  proof cases
    case both
    then have "a2 - g2 < 0"
      using a g by linarith
    then have "t1 = s1'\<lparr>capital_depleted := True\<rparr>" "t2 = s2'\<lparr>capital_depleted := True\<rparr>"
      using both Cons.prems(1,2) u1 u2 by simp_all
    then have "capital t1 - capital t2 = 0"
      using both \<open>a2 - g2 < 0\<close> by (simp add: s1'_def s2'_def)
    then show ?thesis
      using gap_nonneg [OF G D step0, where ys = ys] by simp
  next
    case second
    have t2: "capital t2 = 0"
      using second Cons.prems(2) u2 by (simp add: s2'_def)
    have run1: "year_loop p ys s1' = Inr t1"
      using second Cons.prems(1) u1 by simp
    have c1: "capital s1' = a1 - g1"
      using second by (simp add: s1'_def)
    have "capital t1 \<le> gap ?G ?D ys (capital s1')"
      by (rule year_loop_alone [OF r(1-3) T gp D run1]) (simp add: s1'_def)
    also have "\<dots> \<le> gap ?G ?D ys (?G * (capital s1 - capital s2) + ?D y)"
      using step second by (intro gap_mono [OF G]) (simp add: c1)
    finally show ?thesis
      by (simp add: t2)
  next
    case none
    have run1: "year_loop p ys s1' = Inr t1"
      using none Cons.prems(1) u1 by simp
    have run2: "year_loop ?q ys s2' = Inr t2"
      using none Cons.prems(2) u2 by simp
    have c1: "capital s1' = a1 - g1" and c2: "capital s2' = a2 - g2"
      using none by (simp_all add: s1'_def s2'_def)
    have order: "after_tax p (a2 - g2) \<le> after_tax p (a1 - g1)"
      unfolding a1_def a2_def
      using after_tax_order [OF r T Cons.prems(5,6,7) g] none(2)
      by (simp add: a2_def)
    have "capital t1 - capital t2 \<le> gap ?G ?D ys (capital s1' - capital s2')"
      using none a g order
      by (intro Cons.IH [OF run1 run2]) (simp_all add: c1 c2, simp_all add: s1'_def s2'_def)
    also have "\<dots> \<le> gap ?G ?D ys (?G * (capital s1 - capital s2) + ?D y)"
      using step by (intro gap_mono [OF G]) (simp add: c1 c2)
    finally show ?thesis
      by simp
  qed
qed

lemma years_upt: "[1..<nat (years p + 1)] = [1..<1 + nat (years p)]"
  by (cases "0 \<le> years p") (simp_all add: nat_add_distrib)

text \<open>
  The final capital falls by at most the difference of the base withdrawals times the
  sum, over the periods, of the gross-up and inflation factor of the period compounded
  at the largest possible growth over the periods that follow.
\<close>

lemma simulate_gap:
  assumes "0 \<le> start_capital p"
    and T: "0 \<le> tax_threshold1 p"
    and r: "0 \<le> tax_rate1 p" "tax_rate1 p \<le> 1" "0 \<le> tax_rate2 p" "tax_rate2 p \<le> 1"
    and d: "dividend_tax p < 1"
    and i: "- 1 \<le> inflation p"
    and n: "0 \<le> net_withdrawal p" "net_withdrawal p \<le> w"
    and s1: "simulate_withdrawal p = Inr (df1, depleted1, end_capital1)"
    and s2: "simulate_withdrawal (p\<lparr>net_withdrawal := w\<rparr>) = Inr (df2, depleted2, end_capital2)"
  shows "end_capital1 - end_capital2
    \<le> (w - net_withdrawal p)
        * ((\<Sum>k<nat (years p). (1 + max 0 (annual_return p)) ^ (nat (years p) - 1 - k)
              * (1 + inflation p) ^ k) / (1 - dividend_tax p))"
proof -
  let ?q = "p\<lparr>net_withdrawal := w\<rparr>"
  let ?G = "1 + max 0 (annual_return p)"
  let ?D = "\<lambda>y. gross_of ?q y - gross_of p y"
  let ?n = "nat (years p)"
  define ys where "ys = [1..<1 + ?n]"
  have ys: "[1..<nat (years p + 1)] = ys"
    unfolding ys_def by (rule years_upt)
  obtain t1 where t1: "year_loop p ys (initial_state p) = Inr t1"
    and e1: "end_capital1 = capital t1"
    using s1 unfolding simulate_withdrawal_def ys by (auto split: sum.splits)
  have same: "initial_state ?q = initial_state p" "years ?q = years p"
    by (simp_all add: initial_state_def)
  obtain t2 where t2: "year_loop ?q ys (initial_state p) = Inr t2"
    and e2: "end_capital2 = capital t2"
    using s2 unfolding simulate_withdrawal_def same ys by (auto split: sum.splits)
  have "capital t1 - capital t2
      \<le> gap ?G ?D ys (capital (initial_state p) - capital (initial_state p))"
    using assms(1)
    by (intro year_loop_gap [OF r T d i n t1 t2]) (simp_all add: initial_state_def)
  also have "\<dots> = gap ?G ?D [1..<1 + ?n] 0"
    by (simp add: ys_def)
  also have "\<dots> = ?G ^ ?n * 0 + (\<Sum>k<?n. ?G ^ (?n - 1 - k) * ?D (1 + k))"
    by (rule gap_upt)
  also have "\<dots> = (\<Sum>k<?n. ?G ^ (?n - 1 - k) * ?D (1 + k))"
    by simp
  also have "\<dots> = (\<Sum>k<?n. (w - net_withdrawal p)
      * (?G ^ (?n - 1 - k) * (1 + inflation p) ^ k / (1 - dividend_tax p)))"
  proof (intro sum.cong refl)
    fix k
    have "?D (1 + k)
        = (w - net_withdrawal p) * ((1 + inflation p) ^ k / (1 - dividend_tax p))"
      by (simp add: gross_of_def left_diff_distrib diff_divide_distrib)
    then show "?G ^ (?n - 1 - k) * ?D (1 + k) = (w - net_withdrawal p)
        * (?G ^ (?n - 1 - k) * (1 + inflation p) ^ k / (1 - dividend_tax p))"
      by (simp only: times_divide_eq_right mult.left_commute)
  qed
  also have "\<dots> = (w - net_withdrawal p)
      * ((\<Sum>k<?n. ?G ^ (?n - 1 - k) * (1 + inflation p) ^ k) / (1 - dividend_tax p))"
    by (simp add: sum_distrib_left sum_divide_distrib)
  finally show ?thesis
    by (simp add: e1 e2)
qed

section \<open>Claims about the simulation\<close>

text \<open>
  Claim C1. When the starting capital is not negative, every row of the result of
  \<open>simulate_withdrawal\<close> has an end capital that is not negative.
\<close>

theorem end_capital_nonneg:
  assumes "0 \<le> start_capital p"
    and "simulate_withdrawal p = Inr (df, depleted, end_capital)"
  shows "\<forall>r\<in>set df. 0 \<le> End_Capital r"
proof -
  from simulate_rows [OF assms(2)] obtain new where
    "df = hd (data (initial_state p)) # new" "\<forall>r\<in>set new. \<exists>y c. r = row_of p y c"
    by blast
  then show ?thesis
    using assms(1) by (auto simp add: initial_state_def row_of_nonneg)
qed

theorem end_capital_nonneg_witness:
  "0 \<le> start_capital \<lparr>start_capital = 100, annual_return = 0, inflation = 0,
      net_withdrawal = 60, tax_threshold1 = 200000, tax_rate1 = 19/100,
      tax_rate2 = 258/1000, dividend_tax = 0, years = 2, current_year = 2024\<rparr>
   \<and> simulate_withdrawal \<lparr>start_capital = 100, annual_return = 0, inflation = 0,
      net_withdrawal = 60, tax_threshold1 = 200000, tax_rate1 = 19/100,
      tax_rate2 = 258/1000, dividend_tax = 0, years = 2, current_year = 2024\<rparr>
     = Inr ([\<lparr>Year = 2024, Profit = 0, Profit_Tax = 0, Dividend_Tax = 0,
              Gross_Withdrawal = 0, Net_Withdrawal = 0, End_Capital = 100\<rparr>,
            \<lparr>Year = 2025, Profit = 0, Profit_Tax = 0, Dividend_Tax = 0,
              Gross_Withdrawal = 60, Net_Withdrawal = 60, End_Capital = 40\<rparr>,
            \<lparr>Year = 2026, Profit = 0, Profit_Tax = 0, Dividend_Tax = 0,
              Gross_Withdrawal = 40, Net_Withdrawal = 40, End_Capital = 0\<rparr>],
           True, 0)
   \<and> list_all (\<lambda>r. 0 \<le> End_Capital r)
        [\<lparr>Year = 2024, Profit = 0, Profit_Tax = 0, Dividend_Tax = 0,
              Gross_Withdrawal = 0, Net_Withdrawal = 0, End_Capital = 100\<rparr>,
            \<lparr>Year = 2025, Profit = 0, Profit_Tax = 0, Dividend_Tax = 0,
              Gross_Withdrawal = 60, Net_Withdrawal = 60, End_Capital = 40\<rparr>,
            \<lparr>Year = 2026, Profit = 0, Profit_Tax = 0, Dividend_Tax = 0,
              Gross_Withdrawal = 40, Net_Withdrawal = 40, End_Capital = 0\<rparr>]"
proof -
  let ?p = "\<lparr>start_capital = 100, annual_return = 0, inflation = 0,
      net_withdrawal = 60, tax_threshold1 = 200000, tax_rate1 = 19/100,
      tax_rate2 = 258/1000, dividend_tax = 0, years = 2, current_year = 2024\<rparr>"
  have h: "0 \<le> start_capital ?p"
    by simp
  have e: "simulate_withdrawal ?p
     = Inr ([\<lparr>Year = 2024, Profit = 0, Profit_Tax = 0, Dividend_Tax = 0,
              Gross_Withdrawal = 0, Net_Withdrawal = 0, End_Capital = 100\<rparr>,
            \<lparr>Year = 2025, Profit = 0, Profit_Tax = 0, Dividend_Tax = 0,
              Gross_Withdrawal = 60, Net_Withdrawal = 60, End_Capital = 40\<rparr>,
            \<lparr>Year = 2026, Profit = 0, Profit_Tax = 0, Dividend_Tax = 0,
              Gross_Withdrawal = 40, Net_Withdrawal = 40, End_Capital = 0\<rparr>],
           True, 0)"
    by (simp add: sim_eval)
  show ?thesis
    using end_capital_nonneg [OF h e] e by (simp add: list_all_iff)
qed

text \<open>
  Claim C2. In any period (a year from 1 on, at any state of the loop) whose tentative
  end capital
  \<open>capital + profit - profit_tax - gross_withdrawal\<close> is negative, the row appended has
  the gross withdrawal reduced to \<open>capital + profit - profit_tax\<close> with profit and
  profit tax as first computed, net withdrawal and dividend tax recomputed from the
  reduced figure, end capital 0; the capital is depleted and the loop stops there,
  whatever years remain.
\<close>

theorem depletion_clamp:
  fixes p :: params and s :: loop_state and year :: nat and rest :: "nat list"
  defines "profit \<equiv> capital s * annual_return p"
  defines "profit_tax \<equiv>
    (if profit \<le> tax_threshold1 p then profit * tax_rate1 p
     else tax_threshold1 p * tax_rate1 p + (profit - tax_threshold1 p) * tax_rate2 p)"
  defines "gross_withdrawal \<equiv>
    net_withdrawal p * (1 + inflation p) ^ (year - 1) / (1 - dividend_tax p)"
  assumes "1 \<le> year"
    and "dividend_tax p \<noteq> 1"
    and "capital s + profit - profit_tax - gross_withdrawal < 0"
  shows "year_loop p (year # rest) s =
    Inr \<lparr>capital = 0, capital_depleted = True,
         data = data s @
           [\<lparr>Year = current_year p + int year, Profit = profit, Profit_Tax = profit_tax,
             Dividend_Tax = (capital s + profit - profit_tax) * dividend_tax p,
             Gross_Withdrawal = capital s + profit - profit_tax,
             Net_Withdrawal = (capital s + profit - profit_tax) * (1 - dividend_tax p),
             End_Capital = 0\<rparr>]\<rparr>"
  using assms(5,6) unfolding profit_def profit_tax_def gross_withdrawal_def
  by (simp add: year_body_def truediv_def Let_def)

theorem depletion_clamp_witness:
  "(1::nat) \<le> 1
   \<and> dividend_tax \<lparr>start_capital = 50000, annual_return = 4/100, inflation = 2/100,
      net_withdrawal = 400000, tax_threshold1 = 200000, tax_rate1 = 19/100,
      tax_rate2 = 258/1000, dividend_tax = 1/4, years = 3, current_year = 2024\<rparr> \<noteq> 1
   \<and> (50000::real) + 2000 - 380 - 400000 / (1 - 1/4) < 0
   \<and> year_loop \<lparr>start_capital = 50000, annual_return = 4/100, inflation = 2/100,
      net_withdrawal = 400000, tax_threshold1 = 200000, tax_rate1 = 19/100,
      tax_rate2 = 258/1000, dividend_tax = 1/4, years = 3, current_year = 2024\<rparr> [1, 2, 3]
      \<lparr>capital = 50000, capital_depleted = False,
       data = [\<lparr>Year = 2024, Profit = 0, Profit_Tax = 0, Dividend_Tax = 0,
                Gross_Withdrawal = 0, Net_Withdrawal = 0, End_Capital = 50000\<rparr>]\<rparr>
    = Inr \<lparr>capital = 0, capital_depleted = True,
         data = [\<lparr>Year = 2024, Profit = 0, Profit_Tax = 0, Dividend_Tax = 0,
                  Gross_Withdrawal = 0, Net_Withdrawal = 0, End_Capital = 50000\<rparr>,
                 \<lparr>Year = 2025, Profit = 2000, Profit_Tax = 380, Dividend_Tax = 12905,
                  Gross_Withdrawal = 51620, Net_Withdrawal = 38715, End_Capital = 0\<rparr>]\<rparr>
   \<and> simulate_withdrawal \<lparr>start_capital = 50000, annual_return = 4/100,
      inflation = 2/100, net_withdrawal = 400000, tax_threshold1 = 200000,
      tax_rate1 = 19/100, tax_rate2 = 258/1000, dividend_tax = 1/4, years = 3,
      current_year = 2024\<rparr>
    = Inr ([\<lparr>Year = 2024, Profit = 0, Profit_Tax = 0, Dividend_Tax = 0,
             Gross_Withdrawal = 0, Net_Withdrawal = 0, End_Capital = 50000\<rparr>,
           \<lparr>Year = 2025, Profit = 2000, Profit_Tax = 380, Dividend_Tax = 12905,
             Gross_Withdrawal = 51620, Net_Withdrawal = 38715, End_Capital = 0\<rparr>],
          True, 0)"
proof -
  let ?p = "\<lparr>start_capital = 50000, annual_return = 4/100, inflation = 2/100,
      net_withdrawal = 400000, tax_threshold1 = 200000, tax_rate1 = 19/100,
      tax_rate2 = 258/1000, dividend_tax = 1/4, years = 3, current_year = 2024\<rparr>"
  have loop: "year_loop ?p [1, 2, 3] (initial_state ?p)
    = Inr \<lparr>capital = 0, capital_depleted = True,
         data = [\<lparr>Year = 2024, Profit = 0, Profit_Tax = 0, Dividend_Tax = 0,
                  Gross_Withdrawal = 0, Net_Withdrawal = 0, End_Capital = 50000\<rparr>,
                 \<lparr>Year = 2025, Profit = 2000, Profit_Tax = 380, Dividend_Tax = 12905,
                  Gross_Withdrawal = 51620, Net_Withdrawal = 38715, End_Capital = 0\<rparr>]\<rparr>"
    using depletion_clamp [of 1 ?p "initial_state ?p" "[2, 3]"]
    by (simp add: initial_state_def)
  have years: "[1..<nat (years ?p + 1)] = [1, 2, 3]"
    by (simp add: upt_rec)
  have "simulate_withdrawal ?p
    = Inr ([\<lparr>Year = 2024, Profit = 0, Profit_Tax = 0, Dividend_Tax = 0,
             Gross_Withdrawal = 0, Net_Withdrawal = 0, End_Capital = 50000\<rparr>,
           \<lparr>Year = 2025, Profit = 2000, Profit_Tax = 380, Dividend_Tax = 12905,
             Gross_Withdrawal = 51620, Net_Withdrawal = 38715, End_Capital = 0\<rparr>],
          True, 0)"
    unfolding simulate_withdrawal_def years loop by simp
  then show ?thesis
    using loop by (simp add: initial_state_def)
qed

text \<open>
  Claim C3, as amended. In every simulated period the profit tax is the two-bracket
  formula applied to the profit. A negative profit lies below any threshold that is not
  negative, so its tax is \<open>profit * tax_rate1\<close>: negative exactly when \<open>tax_rate1\<close> is
  positive, and zero when \<open>tax_rate1\<close> is zero.
\<close>

theorem profit_tax_two_bracket:
  assumes "simulate_withdrawal p = Inr (df, depleted, end_capital)"
  shows "\<forall>r\<in>set (tl df).
     Profit_Tax r =
       (if Profit r \<le> tax_threshold1 p then Profit r * tax_rate1 p
        else tax_threshold1 p * tax_rate1 p + (Profit r - tax_threshold1 p) * tax_rate2 p)
     \<and> (Profit r < 0 \<and> 0 \<le> tax_threshold1 p \<longrightarrow>
          Profit_Tax r = Profit r * tax_rate1 p \<and> (Profit_Tax r < 0 \<longleftrightarrow> 0 < tax_rate1 p))"
proof -
  from simulate_rows [OF assms] obtain new where
    df: "df = hd (data (initial_state p)) # new"
    and new: "\<forall>r\<in>set new. \<exists>y c. r = row_of p y c"
    by blast
  show ?thesis
  proof
    fix r
    assume "r \<in> set (tl df)"
    then obtain y c where r: "r = row_of p y c"
      using df new by auto
    show "Profit_Tax r =
       (if Profit r \<le> tax_threshold1 p then Profit r * tax_rate1 p
        else tax_threshold1 p * tax_rate1 p + (Profit r - tax_threshold1 p) * tax_rate2 p)
     \<and> (Profit r < 0 \<and> 0 \<le> tax_threshold1 p \<longrightarrow>
          Profit_Tax r = Profit r * tax_rate1 p \<and> (Profit_Tax r < 0 \<longleftrightarrow> 0 < tax_rate1 p))"
      unfolding r using row_of_tax [of p y c] row_of_profit_tax_neg [of p y c] by blast
  qed
qed

text \<open>
  With \<open>tax_rate1 = 0\<close> a negative profit is taxed at exactly zero: the claim as first
  stated (a negative profit always gives a negative tax) fails there.
\<close>

theorem profit_tax_zero_rate_counterexample:
  "simulate_withdrawal \<lparr>start_capital = 100, annual_return = - (1/2), inflation = 0,
      net_withdrawal = 30, tax_threshold1 = 200000, tax_rate1 = 0, tax_rate2 = 258/1000,
      dividend_tax = 1/4, years = 1, current_year = 2024\<rparr>
   = Inr ([\<lparr>Year = 2024, Profit = 0, Profit_Tax = 0, Dividend_Tax = 0,
            Gross_Withdrawal = 0, Net_Withdrawal = 0, End_Capital = 100\<rparr>,
          \<lparr>Year = 2025, Profit = - 50, Profit_Tax = 0, Dividend_Tax = 10,
            Gross_Withdrawal = 40, Net_Withdrawal = 30, End_Capital = 10\<rparr>],
         False, 10)
   \<and> Profit \<lparr>Year = 2025, Profit = - 50, Profit_Tax = 0, Dividend_Tax = 10,
            Gross_Withdrawal = 40, Net_Withdrawal = 30, End_Capital = 10\<rparr> < 0
   \<and> \<not> Profit_Tax \<lparr>Year = 2025, Profit = - 50, Profit_Tax = 0, Dividend_Tax = 10,
            Gross_Withdrawal = 40, Net_Withdrawal = 30, End_Capital = 10\<rparr> < 0"
  by (simp add: sim_eval)

theorem profit_tax_two_bracket_witness:
  "simulate_withdrawal \<lparr>start_capital = 100, annual_return = - (1/2), inflation = 0,
      net_withdrawal = 30, tax_threshold1 = 200000, tax_rate1 = 19/100, tax_rate2 = 258/1000,
      dividend_tax = 1/4, years = 1, current_year = 2024\<rparr>
   = Inr ([\<lparr>Year = 2024, Profit = 0, Profit_Tax = 0, Dividend_Tax = 0,
            Gross_Withdrawal = 0, Net_Withdrawal = 0, End_Capital = 100\<rparr>,
          \<lparr>Year = 2025, Profit = - 50, Profit_Tax = - (19/2), Dividend_Tax = 10,
            Gross_Withdrawal = 40, Net_Withdrawal = 30, End_Capital = 39/2\<rparr>],
         False, 39/2)
   \<and> (- 50::real) \<le> 200000 \<and> (- (19/2)::real) = - 50 * (19/100)
   \<and> (- 50::real) < 0 \<and> (0::real) \<le> 200000 \<and> (- (19/2)::real) < 0 \<and> (0::real) < 19/100"
proof -
  let ?p = "\<lparr>start_capital = 100, annual_return = - (1/2), inflation = 0,
      net_withdrawal = 30, tax_threshold1 = 200000, tax_rate1 = 19/100, tax_rate2 = 258/1000,
      dividend_tax = 1/4, years = 1, current_year = 2024\<rparr>"
  have e: "simulate_withdrawal ?p
   = Inr ([\<lparr>Year = 2024, Profit = 0, Profit_Tax = 0, Dividend_Tax = 0,
            Gross_Withdrawal = 0, Net_Withdrawal = 0, End_Capital = 100\<rparr>,
          \<lparr>Year = 2025, Profit = - 50, Profit_Tax = - (19/2), Dividend_Tax = 10,
            Gross_Withdrawal = 40, Net_Withdrawal = 30, End_Capital = 39/2\<rparr>],
         False, 39/2)"
    by (simp add: sim_eval)
  show ?thesis
    using profit_tax_two_bracket [OF e] e by simp
qed





text \<open>
  Claim C9. Every row after the year-0 row has a net withdrawal equal to the gross
  withdrawal times \<open>1 - dividend_tax\<close>, and net withdrawal plus dividend tax equal to
  the gross withdrawal, in the normal and in the clamped branch alike.
\<close>

theorem net_gross_dividend_split:
  assumes "simulate_withdrawal p = Inr (df, depleted, end_capital)"
  shows "\<forall>r\<in>set (tl df).
           Net_Withdrawal r = Gross_Withdrawal r * (1 - dividend_tax p)
           \<and> Net_Withdrawal r + Dividend_Tax r = Gross_Withdrawal r"
proof -
  from simulate_rows [OF assms] obtain new where
    "df = hd (data (initial_state p)) # new" "\<forall>r\<in>set new. \<exists>y c. r = row_of p y c"
    by blast
  then show ?thesis
    using row_of_net [of p] row_of_split [of p] by fastforce
qed

theorem net_gross_dividend_split_witness:
  "simulate_withdrawal \<lparr>start_capital = 50000, annual_return = 4/100, inflation = 2/100,
      net_withdrawal = 30000, tax_threshold1 = 200000, tax_rate1 = 19/100,
      tax_rate2 = 258/1000, dividend_tax = 1/4, years = 2, current_year = 2024\<rparr>
     = Inr ([\<lparr>Year = 2024, Profit = 0, Profit_Tax = 0, Dividend_Tax = 0,
              Gross_Withdrawal = 0, Net_Withdrawal = 0, End_Capital = 50000\<rparr>,
            \<lparr>Year = 2025, Profit = 2000, Profit_Tax = 380, Dividend_Tax = 10000,
              Gross_Withdrawal = 40000, Net_Withdrawal = 30000, End_Capital = 11620\<rparr>,
            \<lparr>Year = 2026, Profit = 2324/5, Profit_Tax = 11039/125,
              Dividend_Tax = 1499561/500, Gross_Withdrawal = 1499561/125,
              Net_Withdrawal = 4498683/500, End_Capital = 0\<rparr>],
           True, 0)
   \<and> (30000::real) = 40000 * (1 - 1/4) \<and> (30000::real) + 10000 = 40000
   \<and> (4498683/500::real) = 1499561/125 * (1 - 1/4)
   \<and> (4498683/500::real) + 1499561/500 = 1499561/125"
proof -
  let ?p = "\<lparr>start_capital = 50000, annual_return = 4/100, inflation = 2/100,
      net_withdrawal = 30000, tax_threshold1 = 200000, tax_rate1 = 19/100,
      tax_rate2 = 258/1000, dividend_tax = 1/4, years = 2, current_year = 2024\<rparr>"
  have e: "simulate_withdrawal ?p
     = Inr ([\<lparr>Year = 2024, Profit = 0, Profit_Tax = 0, Dividend_Tax = 0,
              Gross_Withdrawal = 0, Net_Withdrawal = 0, End_Capital = 50000\<rparr>,
            \<lparr>Year = 2025, Profit = 2000, Profit_Tax = 380, Dividend_Tax = 10000,
              Gross_Withdrawal = 40000, Net_Withdrawal = 30000, End_Capital = 11620\<rparr>,
            \<lparr>Year = 2026, Profit = 2324/5, Profit_Tax = 11039/125,
              Dividend_Tax = 1499561/500, Gross_Withdrawal = 1499561/125,
              Net_Withdrawal = 4498683/500, End_Capital = 0\<rparr>],
           True, 0)"
    by (simp add: sim_eval)
  show ?thesis
    using net_gross_dividend_split [OF e] e by simp
qed

text \<open>
  Claim C10. With an annual return of -200 percent, capital plus profit minus profit
  tax is \<open>100 - 200 + 38 = -62\<close>: the clamp sets the gross withdrawal to -62 and the
  net withdrawal to -31, both negative, with end capital 0 and the capital depleted.
\<close>

theorem negative_return_contribution:
  "simulate_withdrawal \<lparr>start_capital = 100, annual_return = - 2, inflation = 0,
      net_withdrawal = 10, tax_threshold1 = 200000, tax_rate1 = 19/100,
      tax_rate2 = 258/1000, dividend_tax = 1/2, years = 1, current_year = 2024\<rparr>
   = Inr ([\<lparr>Year = 2024, Profit = 0, Profit_Tax = 0, Dividend_Tax = 0,
            Gross_Withdrawal = 0, Net_Withdrawal = 0, End_Capital = 100\<rparr>,
          \<lparr>Year = 2025, Profit = - 200, Profit_Tax = - 38, Dividend_Tax = - 31,
            Gross_Withdrawal = - 62, Net_Withdrawal = - 31, End_Capital = 0\<rparr>],
         True, 0)
   \<and> Gross_Withdrawal \<lparr>Year = 2025, Profit = - 200, Profit_Tax = - 38,
        Dividend_Tax = - 31, Gross_Withdrawal = - 62, Net_Withdrawal = - 31,
        End_Capital = 0\<rparr> < 0
   \<and> Net_Withdrawal \<lparr>Year = 2025, Profit = - 200, Profit_Tax = - 38,
        Dividend_Tax = - 31, Gross_Withdrawal = - 62, Net_Withdrawal = - 31,
        End_Capital = 0\<rparr> < 0"
  by (simp add: sim_eval)

text \<open>
  Claim C5, as amended. With the starting capital and the base withdrawal not negative,
  a tax threshold that is not negative, both tax rates in \<open>[0, 1]\<close>, a dividend tax
  below 1 and an inflation of at least -1, a larger base withdrawal never gives a larger
  final capital, and never delays depletion: if the run with the smaller withdrawal is
  depleted, so is the run with the larger one, with no more rows.
\<close>

theorem withdrawal_monotone:
  assumes "0 \<le> start_capital p"
    and "0 \<le> tax_threshold1 p"
    and "0 \<le> tax_rate1 p" and "tax_rate1 p \<le> 1"
    and "0 \<le> tax_rate2 p" and "tax_rate2 p \<le> 1"
    and "dividend_tax p < 1"
    and "- 1 \<le> inflation p"
    and "0 \<le> net_withdrawal p" and "net_withdrawal p \<le> w"
    and "simulate_withdrawal p = Inr (df1, depleted1, end_capital1)"
    and "simulate_withdrawal (p\<lparr>net_withdrawal := w\<rparr>) = Inr (df2, depleted2, end_capital2)"
  shows "end_capital2 \<le> end_capital1
    \<and> (depleted1 \<longrightarrow> depleted2 \<and> length df2 \<le> length df1)"
proof -
  let ?q = "p\<lparr>net_withdrawal := w\<rparr>"
  let ?ys = "[1..<nat (years p + 1)]"
  obtain t1 where t1: "year_loop p ?ys (initial_state p) = Inr t1"
    and r1: "df1 = data t1" "depleted1 = capital_depleted t1" "end_capital1 = capital t1"
    using assms(11) by (auto simp add: simulate_withdrawal_def split: sum.splits)
  have same: "initial_state ?q = initial_state p" "years ?q = years p"
    by (simp_all add: initial_state_def)
  obtain t2 where t2: "year_loop ?q ?ys (initial_state p) = Inr t2"
    and r2: "df2 = data t2" "depleted2 = capital_depleted t2" "end_capital2 = capital t2"
    using assms(12) by (auto simp add: simulate_withdrawal_def same split: sum.splits)
  have "capital t2 \<le> capital t1
    \<and> (capital_depleted t1 \<longrightarrow>
         capital_depleted t2 \<and> length (data t2) \<le> length (data t1))"
    using assms(1)
    by (intro year_loop_mono [OF assms(3-6) assms(2) assms(7-10) t1 t2])
      (simp_all add: initial_state_def)
  then show ?thesis
    by (simp add: r1 r2)
qed

text \<open>
  A larger withdrawal brings depletion forward, from the second period to the first, so
  the period of depletion does decrease; and with an inflation of -300 percent the
  second year's withdrawal is negative, so a larger base withdrawal leaves a larger
  final capital, 120 instead of 110.
\<close>

theorem withdrawal_monotone_counterexample:
  "simulate_withdrawal \<lparr>start_capital = 100, annual_return = 0, inflation = 0,
      net_withdrawal = 60, tax_threshold1 = 200000, tax_rate1 = 19/100,
      tax_rate2 = 258/1000, dividend_tax = 0, years = 2, current_year = 2024\<rparr>
     = Inr ([\<lparr>Year = 2024, Profit = 0, Profit_Tax = 0, Dividend_Tax = 0,
              Gross_Withdrawal = 0, Net_Withdrawal = 0, End_Capital = 100\<rparr>,
            \<lparr>Year = 2025, Profit = 0, Profit_Tax = 0, Dividend_Tax = 0,
              Gross_Withdrawal = 60, Net_Withdrawal = 60, End_Capital = 40\<rparr>,
            \<lparr>Year = 2026, Profit = 0, Profit_Tax = 0, Dividend_Tax = 0,
              Gross_Withdrawal = 40, Net_Withdrawal = 40, End_Capital = 0\<rparr>],
           True, 0)
   \<and> simulate_withdrawal \<lparr>start_capital = 100, annual_return = 0, inflation = 0,
      net_withdrawal = 200, tax_threshold1 = 200000, tax_rate1 = 19/100,
      tax_rate2 = 258/1000, dividend_tax = 0, years = 2, current_year = 2024\<rparr>
     = Inr ([\<lparr>Year = 2024, Profit = 0, Profit_Tax = 0, Dividend_Tax = 0,
              Gross_Withdrawal = 0, Net_Withdrawal = 0, End_Capital = 100\<rparr>,
            \<lparr>Year = 2025, Profit = 0, Profit_Tax = 0, Dividend_Tax = 0,
              Gross_Withdrawal = 100, Net_Withdrawal = 100, End_Capital = 0\<rparr>],
           True, 0)
   \<and> (60::real) < 200 \<and> (1::nat) < 2
   \<and> simulate_withdrawal \<lparr>start_capital = 100, annual_return = 0, inflation = - 3,
      net_withdrawal = 10, tax_threshold1 = 200000, tax_rate1 = 19/100,
      tax_rate2 = 258/1000, dividend_tax = 0, years = 2, current_year = 2024\<rparr>
     = Inr ([\<lparr>Year = 2024, Profit = 0, Profit_Tax = 0, Dividend_Tax = 0,
              Gross_Withdrawal = 0, Net_Withdrawal = 0, End_Capital = 100\<rparr>,
            \<lparr>Year = 2025, Profit = 0, Profit_Tax = 0, Dividend_Tax = 0,
              Gross_Withdrawal = 10, Net_Withdrawal = 10, End_Capital = 90\<rparr>,
            \<lparr>Year = 2026, Profit = 0, Profit_Tax = 0, Dividend_Tax = 0,
              Gross_Withdrawal = - 20, Net_Withdrawal = - 20, End_Capital = 110\<rparr>],
           False, 110)
   \<and> simulate_withdrawal \<lparr>start_capital = 100, annual_return = 0, inflation = - 3,
      net_withdrawal = 20, tax_threshold1 = 200000, tax_rate1 = 19/100,
      tax_rate2 = 258/1000, dividend_tax = 0, years = 2, current_year = 2024\<rparr>
     = Inr ([\<lparr>Year = 2024, Profit = 0, Profit_Tax = 0, Dividend_Tax = 0,
              Gross_Withdrawal = 0, Net_Withdrawal = 0, End_Capital = 100\<rparr>,
            \<lparr>Year = 2025, Profit = 0, Profit_Tax = 0, Dividend_Tax = 0,
              Gross_Withdrawal = 20, Net_Withdrawal = 20, End_Capital = 80\<rparr>,
            \<lparr>Year = 2026, Profit = 0, Profit_Tax = 0, Dividend_Tax = 0,
              Gross_Withdrawal = - 40, Net_Withdrawal = - 40, End_Capital = 120\<rparr>],
           False, 120)
   \<and> (10::real) < 20 \<and> (110::real) < 120"
  by (simp add: sim_eval)

theorem withdrawal_monotone_witness:
  "0 \<le> start_capital \<lparr>start_capital = 50000, annual_return = 4/100, inflation = 2/100,
      net_withdrawal = 30000, tax_threshold1 = 200000, tax_rate1 = 19/100,
      tax_rate2 = 258/1000, dividend_tax = 1/4, years = 3, current_year = 2024\<rparr>
   \<and> (0::real) \<le> 200000 \<and> (0::real) \<le> 19/100 \<and> (19/100::real) \<le> 1
   \<and> (0::real) \<le> 258/1000 \<and> (258/1000::real) \<le> 1 \<and> (1/4::real) < 1
   \<and> (- 1::real) \<le> 2/100 \<and> (0::real) \<le> 30000 \<and> (30000::real) \<le> 400000
   \<and> simulate_withdrawal \<lparr>start_capital = 50000, annual_return = 4/100,
      inflation = 2/100, net_withdrawal = 30000, tax_threshold1 = 200000,
      tax_rate1 = 19/100, tax_rate2 = 258/1000, dividend_tax = 1/4, years = 3,
      current_year = 2024\<rparr>
     = Inr ([\<lparr>Year = 2024, Profit = 0, Profit_Tax = 0, Dividend_Tax = 0,
              Gross_Withdrawal = 0, Net_Withdrawal = 0, End_Capital = 50000\<rparr>,
            \<lparr>Year = 2025, Profit = 2000, Profit_Tax = 380, Dividend_Tax = 10000,
              Gross_Withdrawal = 40000, Net_Withdrawal = 30000, End_Capital = 11620\<rparr>,
            \<lparr>Year = 2026, Profit = 2324/5, Profit_Tax = 11039/125,
              Dividend_Tax = 1499561/500, Gross_Withdrawal = 1499561/125,
              Net_Withdrawal = 4498683/500, End_Capital = 0\<rparr>],
           True, 0)
   \<and> simulate_withdrawal \<lparr>start_capital = 50000, annual_return = 4/100,
      inflation = 2/100, net_withdrawal = 400000, tax_threshold1 = 200000,
      tax_rate1 = 19/100, tax_rate2 = 258/1000, dividend_tax = 1/4, years = 3,
      current_year = 2024\<rparr>
     = Inr ([\<lparr>Year = 2024, Profit = 0, Profit_Tax = 0, Dividend_Tax = 0,
              Gross_Withdrawal = 0, Net_Withdrawal = 0, End_Capital = 50000\<rparr>,
            \<lparr>Year = 2025, Profit = 2000, Profit_Tax = 380, Dividend_Tax = 12905,
              Gross_Withdrawal = 51620, Net_Withdrawal = 38715, End_Capital = 0\<rparr>],
           True, 0)
   \<and> (0::real) \<le> 0 \<and> (2::nat) \<le> 3"
proof -
  let ?p = "\<lparr>start_capital = 50000, annual_return = 4/100, inflation = 2/100,
      net_withdrawal = 30000, tax_threshold1 = 200000, tax_rate1 = 19/100,
      tax_rate2 = 258/1000, dividend_tax = 1/4, years = 3, current_year = 2024\<rparr>"
  have e1: "simulate_withdrawal ?p
     = Inr ([\<lparr>Year = 2024, Profit = 0, Profit_Tax = 0, Dividend_Tax = 0,
              Gross_Withdrawal = 0, Net_Withdrawal = 0, End_Capital = 50000\<rparr>,
            \<lparr>Year = 2025, Profit = 2000, Profit_Tax = 380, Dividend_Tax = 10000,
              Gross_Withdrawal = 40000, Net_Withdrawal = 30000, End_Capital = 11620\<rparr>,
            \<lparr>Year = 2026, Profit = 2324/5, Profit_Tax = 11039/125,
              Dividend_Tax = 1499561/500, Gross_Withdrawal = 1499561/125,
              Net_Withdrawal = 4498683/500, End_Capital = 0\<rparr>],
           True, 0)"
    by (simp add: sim_eval)
  have e2: "simulate_withdrawal (?p\<lparr>net_withdrawal := 400000\<rparr>)
     = Inr ([\<lparr>Year = 2024, Profit = 0, Profit_Tax = 0, Dividend_Tax = 0,
              Gross_Withdrawal = 0, Net_Withdrawal = 0, End_Capital = 50000\<rparr>,
            \<lparr>Year = 2025, Profit = 2000, Profit_Tax = 380, Dividend_Tax = 12905,
              Gross_Withdrawal = 51620, Net_Withdrawal = 38715, End_Capital = 0\<rparr>],
           True, 0)"
    by (simp add: sim_eval)
  have "(0::real) \<le> 0 \<and> (True \<longrightarrow> True \<and> (2::nat) \<le> 3)"
    using withdrawal_monotone [OF _ _ _ _ _ _ _ _ _ _ e1 e2] by simp
  then show ?thesis
    using e1 e2 by simp
qed

section \<open>The bisection loop\<close>

declare bisect.simps [simp del]

lemma bisect_bracket:
  "dividend_tax p \<noteq> 1 \<Longrightarrow> low \<le> high \<Longrightarrow>
   \<exists>lo hi. bisect p low high = Inr (lo, hi) \<and> low \<le> lo \<and> lo \<le> hi \<and> hi \<le> high
     \<and> hi - lo \<le> 1
     \<and> (lo \<noteq> low \<longrightarrow>
          (\<exists>df depleted end_capital.
             simulate_withdrawal (p\<lparr>net_withdrawal := lo\<rparr>) = Inr (df, depleted, end_capital)
             \<and> 0 < end_capital))
     \<and> (hi \<noteq> high \<longrightarrow>
          (\<exists>df depleted end_capital.
             simulate_withdrawal (p\<lparr>net_withdrawal := hi\<rparr>) = Inr (df, depleted, end_capital)
             \<and> \<not> 0 < end_capital))"
proof (induction p low high rule: bisect.induct)
  case (1 p low high)
  show ?case
  proof (cases "tol < high - low")
    case False
    then have "bisect p low high = Inr (low, high)"
      by (simp add: bisect.simps)
    then show ?thesis
      using False "1.prems"(2) by (simp add: tol_def)
  next
    case True
    define x where "x = (low + high) / 2"
    have lx: "low \<le> x" and xh: "x \<le> high"
      using "1.prems"(2) by (simp_all add: x_def)
    have "dividend_tax (p\<lparr>net_withdrawal := x\<rparr>) \<noteq> 1"
      using "1.prems"(1) by simp
    from simulate_returns [OF this] obtain df depleted c where
      sim: "simulate_withdrawal (p\<lparr>net_withdrawal := x\<rparr>) = Inr (df, depleted, c)"
      by blast
    show ?thesis
    proof (cases "0 < c")
      case pos: True
      have step: "bisect p low high = bisect p x high"
        using True sim pos by (simp add: bisect.simps [of p low high] x_def)
      from "1.IH"(1) [OF True x_def sim refl refl pos "1.prems"(1) xh]
      obtain lo hi where
        r: "bisect p x high = Inr (lo, hi)" "x \<le> lo" "lo \<le> hi" "hi \<le> high" "hi - lo \<le> 1"
        and l: "lo \<noteq> x \<longrightarrow>
          (\<exists>df depleted end_capital.
             simulate_withdrawal (p\<lparr>net_withdrawal := lo\<rparr>) = Inr (df, depleted, end_capital)
             \<and> 0 < end_capital)"
        and h: "hi \<noteq> high \<longrightarrow>
          (\<exists>df depleted end_capital.
             simulate_withdrawal (p\<lparr>net_withdrawal := hi\<rparr>) = Inr (df, depleted, end_capital)
             \<and> \<not> 0 < end_capital)"
        by blast
      have "\<exists>df depleted end_capital.
             simulate_withdrawal (p\<lparr>net_withdrawal := lo\<rparr>) = Inr (df, depleted, end_capital)
             \<and> 0 < end_capital"
        using l sim pos by (cases "lo = x") auto
      then show ?thesis
        using step r h lx by (intro exI [of _ lo] exI [of _ hi]) auto
    next
      case npos: False
      have step: "bisect p low high = bisect p low x"
        using True sim npos by (simp add: bisect.simps [of p low high] x_def)
      from "1.IH"(2) [OF True x_def sim refl refl npos "1.prems"(1) lx]
      obtain lo hi where
        r: "bisect p low x = Inr (lo, hi)" "low \<le> lo" "lo \<le> hi" "hi \<le> x" "hi - lo \<le> 1"
        and l: "lo \<noteq> low \<longrightarrow>
          (\<exists>df depleted end_capital.
             simulate_withdrawal (p\<lparr>net_withdrawal := lo\<rparr>) = Inr (df, depleted, end_capital)
             \<and> 0 < end_capital)"
        and h: "hi \<noteq> x \<longrightarrow>
          (\<exists>df depleted end_capital.
             simulate_withdrawal (p\<lparr>net_withdrawal := hi\<rparr>) = Inr (df, depleted, end_capital)
             \<and> \<not> 0 < end_capital)"
        by blast
      have "\<exists>df depleted end_capital.
             simulate_withdrawal (p\<lparr>net_withdrawal := hi\<rparr>) = Inr (df, depleted, end_capital)
             \<and> \<not> 0 < end_capital"
        using h sim npos by (cases "hi = x") auto
      then show ?thesis
        using step r l xh by (intro exI [of _ lo] exI [of _ hi]) auto
    qed
  qed
qed


text \<open>An evaluation used below: 17 passes of the loop on a two-year horizon.\<close>

lemma bisect_65536:
  "bisect \<lparr>start_capital = 65536, annual_return = 0, inflation = 0,
      net_withdrawal = 0, tax_threshold1 = 200000, tax_rate1 = 19/100,
      tax_rate2 = 258/1000, dividend_tax = 1/2, years = 2, current_year = 2024\<rparr>
      0 (65536 * 2) = Inr (16383, 16384)"
  by code_simp

section \<open>Claims about the automatic calculation\<close>




text \<open>
  Claim C8. With a starting capital of 0 the search range is \<open>[0, 0]\<close>: the loop
  condition fails at once, no simulation is run, and the result is 0.
\<close>

theorem solver_zero_capital:
  assumes "start_capital p = 0"
  shows "bisect p 0 (start_capital p * 2) = Inr (0, 0) \<and> auto_calc_withdrawal p = Inr 0"
  using assms by (simp add: auto_calc_withdrawal_def bisect.simps tol_def)

theorem solver_zero_capital_witness:
  "start_capital \<lparr>start_capital = 0, annual_return = 4/100, inflation = 2/100,
      net_withdrawal = 0, tax_threshold1 = 200000, tax_rate1 = 19/100,
      tax_rate2 = 258/1000, dividend_tax = 1, years = 35, current_year = 2024\<rparr> = 0
   \<and> bisect \<lparr>start_capital = 0, annual_return = 4/100, inflation = 2/100,
      net_withdrawal = 0, tax_threshold1 = 200000, tax_rate1 = 19/100,
      tax_rate2 = 258/1000, dividend_tax = 1, years = 35, current_year = 2024\<rparr> 0 (0 * 2)
     = Inr (0, 0)
   \<and> auto_calc_withdrawal \<lparr>start_capital = 0, annual_return = 4/100, inflation = 2/100,
      net_withdrawal = 0, tax_threshold1 = 200000, tax_rate1 = 19/100,
      tax_rate2 = 258/1000, dividend_tax = 1, years = 35, current_year = 2024\<rparr> = Inr 0"
  using solver_zero_capital [of "\<lparr>start_capital = 0, annual_return = 4/100,
      inflation = 2/100, net_withdrawal = 0, tax_threshold1 = 200000, tax_rate1 = 19/100,
      tax_rate2 = 258/1000, dividend_tax = 1, years = 35, current_year = 2024\<rparr>"]
  by simp

text \<open>
  Claim C4, as amended. The tolerance of 1 bounds the width of the final bracket of
  withdrawals; the end capital is bounded by half the tolerance times the sensitivity of
  the end capital to the withdrawal. Whenever the loop returns a bracket \<open>[low, high]\<close>
  whose upper end was lowered (\<open>high < 2 * start_capital\<close>), with the starting capital
  and the tax threshold not negative, both tax rates in \<open>[0, 1]\<close>, a dividend tax below 1
  and an inflation of at least -1: the result is the midpoint \<open>w\<close>, \<open>high - low \<le> 1\<close>,
  the simulation at \<open>high\<close> ends with capital 0, the simulation at \<open>low\<close> ends with a
  positive capital unless \<open>low = 0\<close>, and the simulation at \<open>w\<close> has at most \<open>years\<close> rows
  after the year-0 row and ends with a capital between 0 and \<open>tol / 2\<close> times the sum
  over the periods \<open>k + 1\<close> of \<open>(1 + inflation) ^ k / (1 - dividend_tax)\<close>, compounded at
  \<open>1 + max 0 annual_return\<close> over the periods that follow.
\<close>

theorem solver_end_capital_bound:
  assumes "0 \<le> start_capital p"
    and "0 \<le> tax_threshold1 p"
    and "0 \<le> tax_rate1 p" and "tax_rate1 p \<le> 1"
    and "0 \<le> tax_rate2 p" and "tax_rate2 p \<le> 1"
    and "dividend_tax p < 1"
    and "- 1 \<le> inflation p"
    and "bisect p 0 (start_capital p * 2) = Inr (low, high)"
    and "high < start_capital p * 2"
  shows "auto_calc_withdrawal p = Inr ((low + high) / 2)
    \<and> 0 \<le> low \<and> low \<le> high \<and> high - low \<le> tol
    \<and> (0 < low \<longrightarrow>
         (\<exists>df depleted end_capital.
            simulate_withdrawal (p\<lparr>net_withdrawal := low\<rparr>) = Inr (df, depleted, end_capital)
            \<and> 0 < end_capital))
    \<and> (\<exists>df depleted.
          simulate_withdrawal (p\<lparr>net_withdrawal := high\<rparr>) = Inr (df, depleted, 0))
    \<and> (\<exists>df depleted end_capital.
          simulate_withdrawal (p\<lparr>net_withdrawal := (low + high) / 2\<rparr>)
            = Inr (df, depleted, end_capital)
          \<and> int (length df) \<le> max 0 (years p) + 1
          \<and> 0 \<le> end_capital
          \<and> end_capital
              \<le> tol / 2
                * ((\<Sum>k<nat (years p).
                      (1 + max 0 (annual_return p)) ^ (nat (years p) - 1 - k)
                      * (1 + inflation p) ^ k)
                   / (1 - dividend_tax p)))"
proof -
  let ?w = "(low + high) / 2"
  let ?q = "p\<lparr>net_withdrawal := ?w\<rparr>"
  let ?K = "(\<Sum>k<nat (years p).
      (1 + max 0 (annual_return p)) ^ (nat (years p) - 1 - k) * (1 + inflation p) ^ k)
    / (1 - dividend_tax p)"
  have d1: "dividend_tax p \<noteq> 1"
    using assms(7) by simp
  have range: "(0::real) \<le> start_capital p * 2"
    using assms(1) by simp
  from bisect_bracket [OF d1 range] assms(9) have
    o: "0 \<le> low" "low \<le> high" "high - low \<le> 1"
    and l: "low \<noteq> 0 \<longrightarrow>
          (\<exists>df depleted end_capital.
             simulate_withdrawal (p\<lparr>net_withdrawal := low\<rparr>) = Inr (df, depleted, end_capital)
             \<and> 0 < end_capital)"
    and h: "high \<noteq> start_capital p * 2 \<longrightarrow>
          (\<exists>df depleted end_capital.
             simulate_withdrawal (p\<lparr>net_withdrawal := high\<rparr>) = Inr (df, depleted, end_capital)
             \<and> \<not> 0 < end_capital)"
    by auto
  have a: "auto_calc_withdrawal p = Inr ?w"
    using assms(9) by (simp add: auto_calc_withdrawal_def)
  from h assms(10) obtain dfh deph ch where
    sh: "simulate_withdrawal (p\<lparr>net_withdrawal := high\<rparr>) = Inr (dfh, deph, ch)"
    and ch: "\<not> 0 < ch"
    by auto
  have "0 \<le> ch"
    using simulate_final_nonneg [OF sh] assms(1) by simp
  then have ch0: "ch = 0"
    using ch by simp
  have "dividend_tax ?q \<noteq> 1"
    using d1 by simp
  from simulate_returns [OF this] obtain df depleted c where
    s: "simulate_withdrawal ?q = Inr (df, depleted, c)"
    by blast
  have c0: "0 \<le> c"
    using simulate_final_nonneg [OF s] assms(1) by simp
  have len: "int (length df) \<le> max 0 (years p) + 1"
    using simulate_length [OF s] by simp
  have sh': "simulate_withdrawal (?q\<lparr>net_withdrawal := high\<rparr>) = Inr (dfh, deph, 0)"
    using sh ch0 by simp
  have "c - 0 \<le> (high - net_withdrawal ?q)
      * ((\<Sum>k<nat (years ?q).
            (1 + max 0 (annual_return ?q)) ^ (nat (years ?q) - 1 - k)
            * (1 + inflation ?q) ^ k) / (1 - dividend_tax ?q))"
    using assms(1-8) o
    by (intro simulate_gap [OF _ _ _ _ _ _ _ _ _ _ s sh']) simp_all
  then have "c \<le> (high - ?w) * ?K"
    by simp
  also have "\<dots> \<le> tol / 2 * ?K"
  proof (rule mult_right_mono)
    show "high - ?w \<le> tol / 2"
      using o(3) by (simp add: tol_def field_simps)
    have "0 \<le> (\<Sum>k<nat (years p).
        (1 + max 0 (annual_return p)) ^ (nat (years p) - 1 - k) * (1 + inflation p) ^ k)"
      using assms(8) by (intro sum_nonneg mult_nonneg_nonneg zero_le_power) simp_all
    then show "0 \<le> ?K"
      using assms(7) by simp
  qed
  finally have bound: "c \<le> tol / 2 * ?K" .
  show ?thesis
    using a o l sh ch0 s len c0 bound by (auto simp add: tol_def)
qed

text \<open>
  The end capital is not within 1 of 0: the calculation returns 16383.5, within 0.5
  of the depleting withdrawal 16384, and the simulation with it ends with a capital of
  2, since each unit of net withdrawal costs 2 gross in each of the 2 years.
\<close>

theorem solver_end_capital_counterexample:
  "auto_calc_withdrawal \<lparr>start_capital = 65536, annual_return = 0, inflation = 0,
      net_withdrawal = 0, tax_threshold1 = 200000, tax_rate1 = 19/100,
      tax_rate2 = 258/1000, dividend_tax = 1/2, years = 2, current_year = 2024\<rparr>
     = Inr (32767 / 2)
   \<and> simulate_withdrawal \<lparr>start_capital = 65536, annual_return = 0, inflation = 0,
      net_withdrawal = 32767 / 2, tax_threshold1 = 200000, tax_rate1 = 19/100,
      tax_rate2 = 258/1000, dividend_tax = 1/2, years = 2, current_year = 2024\<rparr>
     = Inr ([\<lparr>Year = 2024, Profit = 0, Profit_Tax = 0, Dividend_Tax = 0,
              Gross_Withdrawal = 0, Net_Withdrawal = 0, End_Capital = 65536\<rparr>,
            \<lparr>Year = 2025, Profit = 0, Profit_Tax = 0, Dividend_Tax = 32767 / 2,
              Gross_Withdrawal = 32767, Net_Withdrawal = 32767 / 2,
              End_Capital = 32769\<rparr>,
            \<lparr>Year = 2026, Profit = 0, Profit_Tax = 0, Dividend_Tax = 32767 / 2,
              Gross_Withdrawal = 32767, Net_Withdrawal = 32767 / 2, End_Capital = 2\<rparr>],
           False, 2)
   \<and> \<not> \<bar>(2::real) - 0\<bar> \<le> tol"
proof -
  have "auto_calc_withdrawal \<lparr>start_capital = 65536, annual_return = 0, inflation = 0,
      net_withdrawal = 0, tax_threshold1 = 200000, tax_rate1 = 19/100,
      tax_rate2 = 258/1000, dividend_tax = 1/2, years = 2, current_year = 2024\<rparr>
     = Inr (32767 / 2)"
    using bisect_65536 by (simp add: auto_calc_withdrawal_def)
  then show ?thesis
    by (simp add: sim_eval tol_def)
qed

theorem solver_end_capital_bound_witness:
  "0 \<le> start_capital \<lparr>start_capital = 65536, annual_return = 0, inflation = 0,
      net_withdrawal = 0, tax_threshold1 = 200000, tax_rate1 = 19/100,
      tax_rate2 = 258/1000, dividend_tax = 1/2, years = 2, current_year = 2024\<rparr>
   \<and> (0::real) \<le> 200000 \<and> (0::real) \<le> 19/100 \<and> (19/100::real) \<le> 1
   \<and> (0::real) \<le> 258/1000 \<and> (258/1000::real) \<le> 1 \<and> (1/2::real) < 1
   \<and> (- 1::real) \<le> 0
   \<and> bisect \<lparr>start_capital = 65536, annual_return = 0, inflation = 0,
      net_withdrawal = 0, tax_threshold1 = 200000, tax_rate1 = 19/100,
      tax_rate2 = 258/1000, dividend_tax = 1/2, years = 2, current_year = 2024\<rparr>
      0 (65536 * 2) = Inr (16383, 16384)
   \<and> (16384::real) < 65536 * 2
   \<and> auto_calc_withdrawal \<lparr>start_capital = 65536, annual_return = 0, inflation = 0,
      net_withdrawal = 0, tax_threshold1 = 200000, tax_rate1 = 19/100,
      tax_rate2 = 258/1000, dividend_tax = 1/2, years = 2, current_year = 2024\<rparr>
     = Inr ((16383 + 16384) / 2)
   \<and> (16384::real) - 16383 \<le> tol
   \<and> (\<exists>df. simulate_withdrawal \<lparr>start_capital = 65536, annual_return = 0,
        inflation = 0, net_withdrawal = 16383, tax_threshold1 = 200000,
        tax_rate1 = 19/100, tax_rate2 = 258/1000, dividend_tax = 1/2, years = 2,
        current_year = 2024\<rparr> = Inr (df, False, 4))
   \<and> (\<exists>df. simulate_withdrawal \<lparr>start_capital = 65536, annual_return = 0,
        inflation = 0, net_withdrawal = 16384, tax_threshold1 = 200000,
        tax_rate1 = 19/100, tax_rate2 = 258/1000, dividend_tax = 1/2, years = 2,
        current_year = 2024\<rparr> = Inr (df, False, 0))
   \<and> (\<exists>df. simulate_withdrawal \<lparr>start_capital = 65536, annual_return = 0,
        inflation = 0, net_withdrawal = (16383 + 16384) / 2, tax_threshold1 = 200000,
        tax_rate1 = 19/100, tax_rate2 = 258/1000, dividend_tax = 1/2, years = 2,
        current_year = 2024\<rparr> = Inr (df, False, 2))
   \<and> (2::real) \<le> tol / 2 * ((\<Sum>k<(2::nat). (1 + max 0 0) ^ (2 - 1 - k) * (1 + 0) ^ k)
                              / (1 - 1/2))"
proof -
  let ?p = "\<lparr>start_capital = 65536, annual_return = 0, inflation = 0,
      net_withdrawal = 0, tax_threshold1 = 200000, tax_rate1 = 19/100,
      tax_rate2 = 258/1000, dividend_tax = 1/2, years = 2, current_year = 2024\<rparr>"
  have b: "bisect ?p 0 (start_capital ?p * 2) = Inr (16383, 16384)"
    using bisect_65536 by simp
  have four: "\<exists>df. simulate_withdrawal (?p\<lparr>net_withdrawal := 16383\<rparr>)
      = Inr (df, False, 4)"
    by (simp add: sim_eval)
  have zero: "\<exists>df. simulate_withdrawal (?p\<lparr>net_withdrawal := 16384\<rparr>)
      = Inr (df, False, 0)"
    by (simp add: sim_eval)
  have two: "\<exists>df. simulate_withdrawal (?p\<lparr>net_withdrawal := (16383 + 16384) / 2\<rparr>)
      = Inr (df, False, 2)"
    by (simp add: sim_eval)
  from solver_end_capital_bound [OF _ _ _ _ _ _ _ _ b] obtain df depleted c where
    a: "auto_calc_withdrawal ?p = Inr ((16383 + 16384) / 2)"
    and s: "simulate_withdrawal (?p\<lparr>net_withdrawal := (16383 + 16384) / 2\<rparr>)
        = Inr (df, depleted, c)"
    and c: "c \<le> tol / 2 * ((\<Sum>k<nat (years ?p).
          (1 + max 0 (annual_return ?p)) ^ (nat (years ?p) - 1 - k)
          * (1 + inflation ?p) ^ k) / (1 - dividend_tax ?p))"
    by auto
  have "c = 2"
    using s two by auto
  then have "(2::real) \<le> tol / 2 * ((\<Sum>k<(2::nat). (1 + max 0 0) ^ (2 - 1 - k) * (1 + 0) ^ k)
      / (1 - 1/2))"
    using c by simp
  then show ?thesis
    using bisect_65536 a four zero two by (simp add: tol_def)
qed

end
